theory Spec2Isabelle
  imports Complex_Main "HOL-Library.AList"
begin

section \<open>Numbers of the program\<close>

text \<open>
  Every number the program computes with is a Python or NumPy double.  The
  model keeps the special values of IEEE-754 (the two infinities and NaN),
  because the source tests for them (\<^verbatim>\<open>np.isnan\<close>) and produces them
  (\<^verbatim>\<open>np.nan\<close>, a NumPy division by zero), and computes on finite
  values with exact real arithmetic: rounding, overflow and the sign of zero
  are not modelled.  The results on the ledger, the signals and the score
  are therefore worded through the operation the code performs (\<open>fadd\<close>,
  \<open>fmul\<close>, \<open>fdiv\<close>) wherever its rounded result could differ from
  the exact one, and carry the hypotheses under which they hold on doubles
  too (a finite computed product, a bound that excludes overflow).
\<close>

datatype float64 = Fin real | PInf | NInf | NaN

fun isnan :: "float64 \<Rightarrow> bool" where
  "isnan NaN = True"
| "isnan _ = False"

fun is_finite :: "float64 \<Rightarrow> bool" where
  "is_finite (Fin _) = True"
| "is_finite _ = False"

text \<open>The infinity (or NaN) that a product or quotient of sign \<open>s\<close> overflows to.\<close>

definition signed_inf :: "real \<Rightarrow> float64" where
  "signed_inf s = (if s = 0 then NaN else if 0 < s then PInf else NInf)"

fun fsign :: "float64 \<Rightarrow> real" where
  "fsign (Fin x) = sgn x"
| "fsign PInf = 1"
| "fsign NInf = - 1"
| "fsign NaN = 0"

fun fneg :: "float64 \<Rightarrow> float64" where
  "fneg (Fin x) = Fin (- x)"
| "fneg PInf = NInf"
| "fneg NInf = PInf"
| "fneg NaN = NaN"

fun fadd :: "float64 \<Rightarrow> float64 \<Rightarrow> float64" where
  "fadd (Fin x) (Fin y) = Fin (x + y)"
| "fadd NaN _ = NaN"
| "fadd _ NaN = NaN"
| "fadd PInf NInf = NaN"
| "fadd NInf PInf = NaN"
| "fadd PInf _ = PInf"
| "fadd _ PInf = PInf"
| "fadd NInf _ = NInf"
| "fadd _ NInf = NInf"

definition fsub :: "float64 \<Rightarrow> float64 \<Rightarrow> float64" where
  "fsub a b = fadd a (fneg b)"

fun fmul :: "float64 \<Rightarrow> float64 \<Rightarrow> float64" where
  "fmul (Fin x) (Fin y) = Fin (x * y)"
| "fmul NaN _ = NaN"
| "fmul _ NaN = NaN"
| "fmul a b = signed_inf (fsign a * fsign b)"

text \<open>
  \<open>fdiv\<close> is the division of NumPy scalars: a zero divisor gives an infinity
  or NaN (with a warning), it does not raise.
\<close>

fun fdiv :: "float64 \<Rightarrow> float64 \<Rightarrow> float64" where
  "fdiv (Fin x) (Fin y) = (if y = 0 then signed_inf x else Fin (x / y))"
| "fdiv NaN _ = NaN"
| "fdiv _ NaN = NaN"
| "fdiv (Fin x) _ = Fin 0"
| "fdiv PInf (Fin y) = (if y < 0 then NInf else PInf)"
| "fdiv NInf (Fin y) = (if y < 0 then PInf else NInf)"
| "fdiv _ _ = NaN"

fun flt :: "float64 \<Rightarrow> float64 \<Rightarrow> bool" where
  "flt (Fin x) (Fin y) = (x < y)"
| "flt NaN _ = False"
| "flt _ NaN = False"
| "flt PInf _ = False"
| "flt _ NInf = False"
| "flt _ _ = True"

definition fle :: "float64 \<Rightarrow> float64 \<Rightarrow> bool" where
  "fle a b = (flt a b \<or> (a = b \<and> \<not> isnan a))"

definition fgt :: "float64 \<Rightarrow> float64 \<Rightarrow> bool" where
  "fgt a b = flt b a"

definition fge :: "float64 \<Rightarrow> float64 \<Rightarrow> bool" where
  "fge a b = fle b a"

fun fabs :: "float64 \<Rightarrow> float64" where
  "fabs (Fin x) = Fin \<bar>x\<bar>"
| "fabs NaN = NaN"
| "fabs _ = PInf"

fun fsqrt :: "float64 \<Rightarrow> float64" where
  "fsqrt (Fin x) = (if x < 0 then NaN else Fin (sqrt x))"
| "fsqrt PInf = PInf"
| "fsqrt _ = NaN"

text \<open>
  Python's \<^verbatim>\<open>max(a, b)\<close> and \<^verbatim>\<open>min(a, b)\<close> keep the first argument
  unless the second compares strictly beyond it.
\<close>

definition py_max :: "float64 \<Rightarrow> float64 \<Rightarrow> float64" where
  "py_max a b = (if fgt b a then b else a)"

definition py_min :: "float64 \<Rightarrow> float64 \<Rightarrow> float64" where
  "py_min a b = (if flt b a then b else a)"

text \<open>The literal \<^verbatim>\<open>1e-10\<close> of the source.\<close>

abbreviation (input) e10 :: float64 where
  "e10 \<equiv> Fin (1 / 10 ^ 10)"

section \<open>Portfolio (\<^verbatim>\<open>backtest.py\<close>)\<close>

type_synonym symbol = string
type_synonym date = int

text \<open>
  A Python dict is an association list in insertion order:
  \<^verbatim>\<open>d[k] = v\<close> is \<^const>\<open>AList.update\<close>, \<^verbatim>\<open>del d[k]\<close> is
  \<^const>\<open>AList.delete\<close>, \<^verbatim>\<open>d.get(k, dflt)\<close> is \<open>dict_get\<close>.
\<close>

definition dict_get :: "('k \<times> 'v) list \<Rightarrow> 'k \<Rightarrow> 'v \<Rightarrow> 'v" where
  "dict_get d k dflt = (case map_of d k of None \<Rightarrow> dflt | Some v \<Rightarrow> v)"

record snapshot =
  s_date :: date
  s_cash :: float64
  holdings_value :: float64
  total_value :: float64
  s_holdings :: "(symbol \<times> float64) list"

record portfolio =
  cash :: float64
  holdings :: "(symbol \<times> float64) list"
  history :: "snapshot list"

definition Portfolio :: "float64 \<Rightarrow> portfolio" where
  "Portfolio initial_cash = \<lparr>cash = initial_cash, holdings = [], history = []\<rparr>"

definition buy :: "portfolio \<Rightarrow> symbol \<Rightarrow> float64 \<Rightarrow> float64 \<Rightarrow> bool \<times> portfolio" where
  "buy pf symbol shares price =
     (let cost = fmul shares price in
      if fle cost (cash pf)
      then (True, pf\<lparr>cash := fsub (cash pf) cost,
                      holdings := AList.update symbol
                         (fadd (dict_get (holdings pf) symbol (Fin 0)) shares) (holdings pf)\<rparr>)
      else (False, pf))"

definition sell :: "portfolio \<Rightarrow> symbol \<Rightarrow> float64 \<Rightarrow> float64 \<Rightarrow> bool \<times> portfolio" where
  "sell pf symbol shares price =
     (case map_of (holdings pf) symbol of
        None \<Rightarrow> (False, pf)
      | Some held \<Rightarrow>
          if fge held shares
          then (let proceeds = fmul shares price;
                    remaining = fsub held shares
                in (True, pf\<lparr>cash := fadd (cash pf) proceeds,
                               holdings := (if flt remaining e10
                                            then AList.delete symbol (holdings pf)
                                            else AList.update symbol remaining (holdings pf))\<rparr>))
          else (False, pf))"

text \<open>\<^verbatim>\<open>sum(...)\<close> starts from the integer 0 and adds from left to right.\<close>

definition py_sum :: "float64 list \<Rightarrow> float64" where
  "py_sum xs = foldl fadd (Fin 0) xs"

definition get_value :: "portfolio \<Rightarrow> (symbol \<times> float64) list \<Rightarrow> float64" where
  "get_value pf current_prices =
     (let holdings_value =
            py_sum (map (\<lambda>(symbol, shares). fmul shares (dict_get current_prices symbol (Fin 0)))
                        (holdings pf))
      in fadd (cash pf) holdings_value)"

definition record_state :: "portfolio \<Rightarrow> date \<Rightarrow> (symbol \<times> float64) list \<Rightarrow> portfolio" where
  "record_state pf d current_prices =
     (let total = get_value pf current_prices;
          hv = fsub total (cash pf)
      in pf\<lparr>history := history pf @
               [\<lparr>s_date = d, s_cash = cash pf, holdings_value = hv,
                 total_value = total, s_holdings = holdings pf\<rparr>]\<rparr>)"

section \<open>Trading engine (\<^verbatim>\<open>trading_engine.py\<close>)\<close>

text \<open>
  The selector and the engine read a price Series by position only, so they
  take the list of its values.  \<open>iloc\<close> is positional indexing, negative
  positions counting from the end; each use below is guarded by a length test,
  so the \<^verbatim>\<open>IndexError\<close> of an out-of-range position cannot arise.
\<close>

definition iloc :: "'a list \<Rightarrow> int \<Rightarrow> 'a" where
  "iloc xs i = xs ! nat (if i < 0 then int (length xs) + i else i)"

datatype signal = BUY | SELL | HOLD

record trading_engine =
  buy_threshold :: float64
  sell_threshold :: float64
  buy_amount :: float64
  sell_amount :: float64

text \<open>The default arguments of \<^verbatim>\<open>TradingEngine.__init__\<close>.\<close>

definition TradingEngine :: trading_engine where
  "TradingEngine = \<lparr>buy_threshold = Fin (- 0.05), sell_threshold = Fin 0.10,
                     buy_amount = Fin 5.0, sell_amount = Fin 10.0\<rparr>"

definition calculate_weekly_change :: "float64 list \<Rightarrow> float64 option" where
  "calculate_weekly_change prices =
     (if length prices < 2 then None
      else
        let current_price = iloc prices (- 1);
            week_ago_price = (if length prices \<ge> 7 then iloc prices (- 7) else iloc prices 0)
        in if isnan week_ago_price \<or> isnan current_price \<or> flt (fabs week_ago_price) e10
           then None
           else Some (fdiv (fsub current_price week_ago_price) week_ago_price))"

definition generate_signal ::
    "trading_engine \<Rightarrow> float64 list \<Rightarrow> signal \<times> float64 \<times> float64 option" where
  "generate_signal eng prices =
     (case calculate_weekly_change prices of
        None \<Rightarrow> (HOLD, Fin 0.0, None)
      | Some pct \<Rightarrow>
          if fle pct (buy_threshold eng) then (BUY, buy_amount eng, Some pct)
          else if fge pct (sell_threshold eng) then (SELL, sell_amount eng, Some pct)
          else (HOLD, Fin 0.0, Some pct))"

record trade =
  t_signal :: signal
  t_amount :: float64
  t_shares :: float64
  t_price :: "float64 option"
  t_weekly_change :: "float64 option"

text \<open>Truth value of a Python number: everything but zero (NaN included).\<close>

definition truthy :: "float64 \<Rightarrow> bool" where
  "truthy x = (x \<noteq> Fin 0)"

definition execute_trades ::
    "trading_engine \<Rightarrow> (symbol \<times> float64 list) list \<Rightarrow> (symbol \<times> trade) list" where
  "execute_trades eng stock_data =
     foldl (\<lambda>trades (symbol, prices).
        case generate_signal eng prices of (sig, amt, pct) \<Rightarrow>
          if sig \<noteq> HOLD
          then
            let current_price = (if length prices > 0 then Some (iloc prices (- 1)) else None);
                shs = (case current_price of
                         None \<Rightarrow> Fin 0
                       | Some cp \<Rightarrow> if truthy cp \<and> fgt (fabs cp) e10 then fdiv amt cp else Fin 0)
            in AList.update symbol
                 \<lparr>t_signal = sig, t_amount = amt, t_shares = shs,
                  t_price = current_price, t_weekly_change = pct\<rparr> trades
          else trades) [] stock_data"

record trade_summary =
  total_buys :: nat
  total_sells :: nat
  buy_value :: float64
  sell_value :: float64
  net_position :: float64

definition get_trade_summary :: "(symbol \<times> trade) list \<Rightarrow> trade_summary" where
  "get_trade_summary trades =
     (if trades = []
      then \<lparr>total_buys = 0, total_sells = 0, buy_value = Fin 0.0, sell_value = Fin 0.0,
            net_position = Fin 0.0\<rparr>
      else
        let buys = filter (\<lambda>t. t_signal t = BUY) (map snd trades);
            sells = filter (\<lambda>t. t_signal t = SELL) (map snd trades);
            bv = py_sum (map t_amount buys);
            sv = py_sum (map t_amount sells)
        in \<lparr>total_buys = length buys, total_sells = length sells, buy_value = bv,
             sell_value = sv, net_position = fsub sv bv\<rparr>)"

section \<open>Stock selector (\<^verbatim>\<open>stock_selector.py\<close>)\<close>

record stock_selector =
  min_volatility :: float64
  max_volatility :: float64
  min_data_points :: int

text \<open>The default arguments of \<^verbatim>\<open>StockSelector.__init__\<close>.\<close>

definition StockSelector :: stock_selector where
  "StockSelector = \<lparr>min_volatility = Fin 0.01, max_volatility = Fin 0.5, min_data_points = 30\<rparr>"

text \<open>
  Three pandas operations, modelled from their documentation:
  \<^verbatim>\<open>Series.pct_change()\<close> is \<^verbatim>\<open>data / data.shift(1) - 1\<close>, its first
  entry NaN (no filling of missing prices is modelled);
  \<^verbatim>\<open>Series.dropna()\<close> removes the NaN entries;
  \<^verbatim>\<open>Series.std()\<close> is the sample standard deviation (one degree of
  freedom removed), NaN when fewer than two values are given.
\<close>

fun pct_change :: "float64 list \<Rightarrow> float64 list" where
  "pct_change [] = []"
| "pct_change (p # ps) = NaN # map (\<lambda>(prev, cur). fsub (fdiv cur prev) (Fin 1)) (zip (p # ps) ps)"

definition dropna :: "float64 list \<Rightarrow> float64 list" where
  "dropna xs = filter (\<lambda>x. \<not> isnan x) xs"

definition series_std :: "float64 list \<Rightarrow> float64" where
  "series_std xs =
     (let n = length xs in
      if n < 2 then NaN
      else
        let mean = fdiv (py_sum xs) (Fin (real n));
            sq = map (\<lambda>x. fmul (fsub x mean) (fsub x mean)) xs
        in fsqrt (fdiv (py_sum sq) (Fin (real (n - 1)))))"

definition calculate_volatility :: "float64 list \<Rightarrow> float64" where
  "calculate_volatility prices =
     (if length prices < 2 then NaN
      else
        let returns = dropna (pct_change prices) in
        if length returns = 0 then NaN
        else fmul (series_std returns) (Fin (sqrt 252)))"

definition volatility_score :: "stock_selector \<Rightarrow> float64 \<Rightarrow> float64" where
  "volatility_score sel volatility =
     (if flt volatility (min_volatility sel) \<or> fgt volatility (max_volatility sel) then Fin 0.0
      else
        let mid_point = fdiv (fadd (min_volatility sel) (max_volatility sel)) (Fin 2);
            distance_from_mid = fabs (fsub volatility mid_point);
            max_distance = fdiv (fsub (max_volatility sel) (min_volatility sel)) (Fin 2)
        in fsub (Fin 1.0) (fdiv distance_from_mid max_distance))"

definition same_direction :: "float64 list \<Rightarrow> nat" where
  "same_direction returns =
     length (filter (\<lambda>(a, b). fgt (fmul a b) (Fin 0)) (zip (tl returns) (butlast returns)))"

definition calculate_predictability_score :: "stock_selector \<Rightarrow> float64 list \<Rightarrow> float64" where
  "calculate_predictability_score sel prices =
     (if int (length prices) < min_data_points sel then Fin 0.0
      else
        let volatility = calculate_volatility prices in
        if isnan volatility then Fin 0.0
        else
          let vscore = volatility_score sel volatility;
              returns = dropna (pct_change prices)
          in if length returns < 2 then Fin 0.0
             else
               let consistency_score =
                     (if length returns > 1
                      then fdiv (Fin (real (same_direction returns)))
                                (Fin (real (length returns - 1)))
                      else Fin 0.5)
               in fadd (fmul (Fin 0.6) vscore) (fmul (Fin 0.4) consistency_score))"

definition is_suitable :: "stock_selector \<Rightarrow> float64 list \<Rightarrow> bool" where
  "is_suitable sel prices =
     (if int (length prices) < min_data_points sel then False
      else
        let volatility = calculate_volatility prices in
        if isnan volatility then False
        else if flt volatility (min_volatility sel) \<or> fgt volatility (max_volatility sel)
        then False
        else fgt (calculate_predictability_score sel prices) (Fin 0.3))"

definition filter_stocks :: "stock_selector \<Rightarrow> (symbol \<times> float64 list) list \<Rightarrow> symbol list" where
  "filter_stocks sel stock_data =
     map fst (filter (\<lambda>(symbol, prices). is_suitable sel prices) stock_data)"

section \<open>The algorithm (\<^verbatim>\<open>stock_trading_algorithm.py\<close>)\<close>

record algorithm =
  selector :: stock_selector
  engine :: trading_engine

definition StockTradingAlgorithm :: algorithm where
  "StockTradingAlgorithm = \<lparr>selector = StockSelector, engine = TradingEngine\<rparr>"

record algorithm_results =
  suitable_stocks :: "symbol list"
  trades :: "(symbol \<times> trade) list"
  summary :: trade_summary

definition algorithm_run :: "algorithm \<Rightarrow> (symbol \<times> float64 list) list \<Rightarrow> algorithm_results" where
  "algorithm_run alg stock_data =
     (let suitable = filter_stocks (selector alg) stock_data;
          filtered_stock_data =
            List.map_filter (\<lambda>symbol. map_option (\<lambda>prices. (symbol, prices))
                                                   (map_of stock_data symbol)) suitable;
          trs = execute_trades (engine alg) filtered_stock_data
      in \<lparr>suitable_stocks = suitable, trades = trs, summary = get_trade_summary trs\<rparr>)"

section \<open>Backtester (\<^verbatim>\<open>backtest.py\<close>)\<close>

text \<open>
  A price Series of the driver is the list of its (date, price) rows.  The
  source returns \<^verbatim>\<open>None\<close> at each of its failure exits; the model tags
  the exit: \<open>InsufficientData\<close> for the two exits taken before any snapshot
  (no stock data at all, fewer than 14 dates), \<open>EmptyHistory\<close> for the exit
  of \<^verbatim>\<open>_calculate_results\<close>.  \<open>ZeroDivisionError\<close> is the exception of
  Python's own float division.
\<close>

datatype failure = InsufficientData | EmptyHistory | ZeroDivisionError

record trade_entry =
  l_date :: date
  l_symbol :: symbol
  l_action :: signal
  l_shares :: float64
  l_price :: float64
  l_amount :: float64
  l_weekly_change :: "float64 option"

record backtest_results =
  initial_value :: float64
  final_value :: float64
  total_return :: float64
  total_return_pct :: float64
  max_drawdown :: float64
  total_trades :: nat
  buy_trades :: nat
  sell_trades :: nat
  portfolio_history :: "snapshot list"
  trade_log :: "trade_entry list"
  final_holdings :: "(symbol \<times> float64) list"

text \<open>
  \<^verbatim>\<open>trade['amount'] / price\<close>, written once for the BUY branch
  (\<^verbatim>\<open>shares\<close>) and once for the SELL branch (\<^verbatim>\<open>shares_to_sell\<close>).
  The price comes from a Series, so this is a NumPy division.
\<close>

definition order_shares :: "trade \<Rightarrow> float64 \<Rightarrow> float64" where
  "order_shares tr price = fdiv (t_amount tr) price"

text \<open>One iteration of the loop over \<^verbatim>\<open>results['trades'].items()\<close>.\<close>

definition process_trade ::
    "date \<Rightarrow> (symbol \<times> float64) list \<Rightarrow> portfolio \<times> trade_entry list \<Rightarrow> symbol \<times> trade
       \<Rightarrow> portfolio \<times> trade_entry list" where
  "process_trade current_date current_prices st item =
     (case st of (pf, tlog) \<Rightarrow>
      case item of (symbol, tr) \<Rightarrow>
      case map_of current_prices symbol of
        None \<Rightarrow> (pf, tlog)
      | Some price \<Rightarrow>
          if t_signal tr = BUY
          then
            let shs = order_shares tr price in
            case buy pf symbol shs price of
              (True, pf') \<Rightarrow>
                (pf', tlog @ [\<lparr>l_date = current_date, l_symbol = symbol, l_action = BUY,
                               l_shares = shs, l_price = price, l_amount = t_amount tr,
                               l_weekly_change = t_weekly_change tr\<rparr>])
            | (False, pf') \<Rightarrow> (pf', tlog)
          else if t_signal tr = SELL
          then
            let shares_to_sell = order_shares tr price in
            case map_of (holdings pf) symbol of
              None \<Rightarrow> (pf, tlog)
            | Some held \<Rightarrow>
                let actual_shares = py_min shares_to_sell held in
                case sell pf symbol actual_shares price of
                  (True, pf') \<Rightarrow>
                    (pf', tlog @ [\<lparr>l_date = current_date, l_symbol = symbol, l_action = SELL,
                                   l_shares = actual_shares, l_price = price,
                                   l_amount = fmul actual_shares price,
                                   l_weekly_change = t_weekly_change tr\<rparr>])
                | (False, pf') \<Rightarrow> (pf', tlog)
          else (pf, tlog))"

text \<open>The body of the \<^verbatim>\<open>while\<close> loop of \<^verbatim>\<open>Backtester.run\<close> at index \<open>i\<close>.\<close>

definition week_step ::
    "algorithm \<Rightarrow> date list \<Rightarrow> (symbol \<times> (date \<times> float64) list) list \<Rightarrow> nat
       \<Rightarrow> portfolio \<times> trade_entry list \<Rightarrow> portfolio \<times> trade_entry list" where
  "week_step alg all_dates stock_data i st =
     (let current_date = all_dates ! i;
          window_data =
            foldl (\<lambda>w (symbol, prices).
                     let masked = filter (\<lambda>(d, v). d \<le> current_date) prices in
                     if length masked > 0 then AList.update symbol masked w else w)
                  [] stock_data
      in if window_data \<noteq> []
         then
           let results = algorithm_run alg (map (\<lambda>(symbol, prices). (symbol, map snd prices))
                                                window_data);
               current_prices =
                 foldl (\<lambda>cp (symbol, prices).
                          if length prices > 0
                          then AList.update symbol (snd (iloc prices (- 1))) cp else cp)
                       [] window_data
           in case foldl (process_trade current_date current_prices) st (trades results) of
                (pf, tlog) \<Rightarrow> (record_state pf current_date current_prices, tlog)
         else st)"

function run_loop ::
    "algorithm \<Rightarrow> date list \<Rightarrow> (symbol \<times> (date \<times> float64) list) list \<Rightarrow> int \<Rightarrow> nat \<Rightarrow> int
       \<Rightarrow> portfolio \<times> trade_entry list \<Rightarrow> portfolio \<times> trade_entry list" where
  "run_loop alg all_dates stock_data weeks i weeks_processed st =
     (if i < length all_dates \<and> weeks_processed < weeks
      then run_loop alg all_dates stock_data weeks (i + 7) (weeks_processed + 1)
             (week_step alg all_dates stock_data i st)
      else st)"
  by pat_completeness auto
termination
  by (relation "measure (\<lambda>(alg, all_dates, stock_data, weeks, i, wp, st). length all_dates - i)")
     auto

declare run_loop.simps [simp del]

text \<open>
  Python's float division raises on a zero divisor.  In
  \<^verbatim>\<open>_calculate_results\<close> the divisors are \<^verbatim>\<open>initial_value\<close> and
  \<^verbatim>\<open>max_value\<close>, built-in floats when they are zero (the first snapshot
  adds the integer 0 to the initial cash).
\<close>

definition py_truediv :: "float64 \<Rightarrow> float64 \<Rightarrow> failure + float64" where
  "py_truediv a b = (if b = Fin 0 then Inl ZeroDivisionError else Inr (fdiv a b))"

text \<open>
  The loop \<^verbatim>\<open>for state in self.portfolio.history\<close>, threading
  \<^verbatim>\<open>max_value\<close> and \<^verbatim>\<open>max_drawdown\<close>.
\<close>

fun drawdown_loop :: "float64 \<Rightarrow> float64 \<Rightarrow> snapshot list \<Rightarrow> failure + float64 \<times> float64" where
  "drawdown_loop max_value mdd [] = Inr (max_value, mdd)"
| "drawdown_loop max_value mdd (state # rest) =
     (let max_value' = py_max max_value (total_value state) in
      case py_truediv (fsub max_value' (total_value state)) max_value' of
        Inl e \<Rightarrow> Inl e
      | Inr drawdown \<Rightarrow> drawdown_loop max_value' (py_max mdd drawdown) rest)"

definition calculate_results :: "portfolio \<Rightarrow> trade_entry list \<Rightarrow> failure + backtest_results" where
  "calculate_results pf tlog =
     (if history pf = [] then Inl EmptyHistory
      else
        let initial = total_value (hd (history pf));
            final = total_value (last (history pf))
        in case py_truediv (fsub final initial) initial of
             Inl e \<Rightarrow> Inl e
           | Inr ret \<Rightarrow>
               (case drawdown_loop initial (Fin 0) (history pf) of
                  Inl e \<Rightarrow> Inl e
                | Inr (max_value, mdd) \<Rightarrow>
                    Inr \<lparr>initial_value = initial, final_value = final, total_return = ret,
                         total_return_pct = fmul ret (Fin 100), max_drawdown = mdd,
                         total_trades = length tlog,
                         buy_trades = length (filter (\<lambda>t. l_action t = BUY) tlog),
                         sell_trades = length (filter (\<lambda>t. l_action t = SELL) tlog),
                         portfolio_history = history pf, trade_log = tlog,
                         final_holdings = holdings pf\<rparr>))"

text \<open>
  \<^verbatim>\<open>Backtester(symbols, weeks, initial_cash).run(stock_data)\<close> on a fresh
  backtester: a new portfolio, the default algorithm, an empty trade log.
\<close>

definition all_dates_of :: "(symbol \<times> (date \<times> float64) list) list \<Rightarrow> date list" where
  "all_dates_of stock_data =
     sort (remdups (concat (map (\<lambda>(symbol, prices). map fst prices) stock_data)))"

definition run ::
    "(symbol \<times> (date \<times> float64) list) list \<Rightarrow> int \<Rightarrow> float64 \<Rightarrow> failure + backtest_results" where
  "run stock_data weeks initial_cash =
     (if stock_data = [] then Inl InsufficientData
      else
        let all_dates = all_dates_of stock_data in
        if length all_dates < 14 then Inl InsufficientData
        else
          let start_date = all_dates ! 0;
              current_prices =
                List.map_filter (\<lambda>(symbol, prices).
                                   map_option (\<lambda>v. (symbol, v)) (map_of prices start_date))
                                stock_data
          in case run_loop StockTradingAlgorithm all_dates stock_data weeks 7 0
                    (record_state (Portfolio initial_cash) start_date current_prices, []) of
               (pf, tlog) \<Rightarrow> calculate_results pf tlog)"


section \<open>Notions used to state the properties\<close>

subsection \<open>Sequences of ledger calls\<close>

datatype call = Buy symbol float64 float64 | Sell symbol float64 float64

fun apply_call :: "portfolio \<Rightarrow> call \<Rightarrow> portfolio" where
  "apply_call pf (Buy s sh p) = snd (buy pf s sh p)"
| "apply_call pf (Sell s sh p) = snd (sell pf s sh p)"

definition apply_calls :: "portfolio \<Rightarrow> call list \<Rightarrow> portfolio" where
  "apply_calls pf cs = foldl apply_call pf cs"

text \<open>
  The ledger invariant as the specification words it (every stored balance
  strictly above \<^verbatim>\<open>1e-10\<close>), and the one the code maintains (at least
  \<^verbatim>\<open>1e-10\<close>).
\<close>

definition ledger_inv_strict :: "portfolio \<Rightarrow> bool" where
  "ledger_inv_strict pf =
     (fle (Fin 0) (cash pf) \<and> list_all (\<lambda>(s, h). flt e10 h) (holdings pf))"

definition ledger_inv :: "portfolio \<Rightarrow> bool" where
  "ledger_inv pf =
     (fle (Fin 0) (cash pf) \<and> list_all (\<lambda>(s, h). fle e10 h) (holdings pf))"

text \<open>
  The calls for which the invariant is kept: a buy of at least
  \<^verbatim>\<open>1e-10\<close> shares whose computed cost is finite, and a sell of a finite
  amount whose computed proceeds are not negative.  Both conditions read the
  product \<^verbatim>\<open>shares * price\<close> as the code computes it.
\<close>

fun valid_call :: "call \<Rightarrow> bool" where
  "valid_call (Buy s q r) = (fle e10 q \<and> is_finite (fmul q r))"
| "valid_call (Sell s q r) = (is_finite q \<and> fle (Fin 0) (fmul q r))"

subsection \<open>Drawdown as the specification words it\<close>




text \<open>The same two notions when the peak starts from a given value \<open>m\<close>.\<close>

definition peak_from :: "real \<Rightarrow> real list \<Rightarrow> nat \<Rightarrow> real" where
  "peak_from m vs i = Max (insert m (set (take (Suc i) vs)))"


subsection \<open>Consistency of returns as the specification words it\<close>

text \<open>
  Two returns share their sign when both are positive or both are negative;
  the consistency of a list of returns is the fraction of its consecutive
  pairs that do; a price list of the data model holds positive finite numbers.
\<close>

definition same_sign :: "float64 \<Rightarrow> float64 \<Rightarrow> bool" where
  "same_sign a b = ((flt (Fin 0) a \<and> flt (Fin 0) b) \<or> (flt a (Fin 0) \<and> flt b (Fin 0)))"

definition spec_consistency :: "float64 list \<Rightarrow> float64" where
  "spec_consistency rs =
     fdiv (Fin (real (length (filter (\<lambda>i. same_sign (rs ! i) (rs ! Suc i)) [0..<length rs - 1]))))
          (Fin (real (length rs - 1)))"

definition positive_prices :: "float64 list \<Rightarrow> bool" where
  "positive_prices ps = list_all (\<lambda>p. is_finite p \<and> flt (Fin 0) p) ps"

subsection \<open>Distinct timestamps of the input\<close>

definition timestamps :: "(symbol \<times> (date \<times> float64) list) list \<Rightarrow> date set" where
  "timestamps stock_data = (\<Union>(symbol, prices) \<in> set stock_data. fst ` set prices)"

subsection \<open>Finite values as reals\<close>

text \<open>The real number a finite double stands for (0 for the special values).\<close>

fun fval :: "float64 \<Rightarrow> real" where
  "fval (Fin x) = x"
| "fval _ = 0"

section \<open>Basic facts of the arithmetic\<close>

lemma fadd_zero_left [simp]: "fadd (Fin 0) x = x"
  by (cases x) simp_all

lemma fadd_zero_right [simp]: "fadd x (Fin 0) = x"
  by (cases x) simp_all

lemma fsub_Fin [simp]: "fsub (Fin x) (Fin y) = Fin (x - y)"
  by (simp add: fsub_def)

lemma fle_Fin [simp]: "fle (Fin x) (Fin y) = (x \<le> y)"
  by (auto simp: fle_def)

lemma fge_Fin [simp]: "fge (Fin x) (Fin y) = (y \<le> x)"
  by (simp add: fge_def)

lemma fgt_Fin [simp]: "fgt (Fin x) (Fin y) = (y < x)"
  by (simp add: fgt_def)

section \<open>The ledger contract\<close>

text \<open>
  Claim C1.  For every ledger state, symbol, share amount and price:
  \<^verbatim>\<open>buy\<close> succeeds exactly when \<open>shares \<sqdot> price \<le> cash\<close>; on success
  the cost is deducted from the cash and the shares are added to the symbol's
  balance, the entry being created when absent.  \<^verbatim>\<open>sell\<close> succeeds exactly
  when the symbol is held with at least \<open>shares\<close>; on success the proceeds
  are credited, the balance is decremented, and the entry is deleted when the
  remaining balance is below \<^verbatim>\<open>1e-10\<close>.  A failing call returns false and
  leaves the whole ledger as it was.
\<close>

theorem ledger_buy_sell_contract:
  "(fst (buy pf s sh p) \<longleftrightarrow> fle (fmul sh p) (cash pf))
   \<and> (case buy pf s sh p of
        (ok, pf') \<Rightarrow>
          if ok
          then cash pf' = fsub (cash pf) (fmul sh p)
             \<and> map_of (holdings pf') =
                 (map_of (holdings pf))(s \<mapsto>
                    (case map_of (holdings pf) s of None \<Rightarrow> sh | Some h \<Rightarrow> fadd h sh))
             \<and> history pf' = history pf
          else pf' = pf)
   \<and> (fst (sell pf s sh p) \<longleftrightarrow> (\<exists>h. map_of (holdings pf) s = Some h \<and> fge h sh))
   \<and> (case sell pf s sh p of
        (ok, pf') \<Rightarrow>
          if ok
          then cash pf' = fadd (cash pf) (fmul sh p)
             \<and> map_of (holdings pf') =
                 (let remaining = fsub (the (map_of (holdings pf) s)) sh in
                  if flt remaining e10
                  then (map_of (holdings pf))(s := None)
                  else (map_of (holdings pf))(s \<mapsto> remaining))
             \<and> history pf' = history pf
          else pf' = pf)"
  by (auto simp: buy_def sell_def Let_def dict_get_def update_conv' delete_conv'
           split: option.splits)

theorem ledger_buy_sell_contract_witness:
  "fst (buy (Portfolio (Fin 10000)) ''AAPL'' (Fin 10) (Fin 100))
   \<and> cash (snd (buy (Portfolio (Fin 10000)) ''AAPL'' (Fin 10) (Fin 100))) = Fin 9000
   \<and> \<not> fst (sell (Portfolio (Fin 10000)) ''AAPL'' (Fin 10) (Fin 100))
   \<and> snd (sell (Portfolio (Fin 10000)) ''AAPL'' (Fin 10) (Fin 100)) = Portfolio (Fin 10000)"
  using ledger_buy_sell_contract [of "Portfolio (Fin 10000)" "''AAPL''" "Fin 10" "Fin 100"]
  by (simp add: Portfolio_def split: prod.splits)

section \<open>Ledger invariants\<close>

lemma list_all_update:
  "list_all P al \<Longrightarrow> P (k, v) \<Longrightarrow> list_all P (AList.update k v al)"
  by (induction al) auto

lemma list_all_delete: "list_all P al \<Longrightarrow> list_all P (AList.delete k al)"
  by (induction al) auto

lemma list_all_map_of:
  "list_all P al \<Longrightarrow> map_of al k = Some v \<Longrightarrow> P (k, v)"
  by (induction al) (auto split: if_splits)

lemma balance_after_buy:
  "0 \<le> e \<Longrightarrow> fle (Fin e) h \<Longrightarrow> fle (Fin e) q \<Longrightarrow> fle (Fin e) (fadd h q)"
  by (cases h; cases q) (auto simp: fle_def)

lemma cash_after_buy: "fle (Fin 0) c \<Longrightarrow> fle (Fin x) c \<Longrightarrow> fle (Fin 0) (fsub c (Fin x))"
  by (cases c) (auto simp: fle_def fsub_def)

lemma cash_after_sell: "fle (Fin 0) c \<Longrightarrow> fle (Fin 0) x \<Longrightarrow> fle (Fin 0) (fadd c x)"
  by (cases c; cases x) (auto simp: fle_def)

lemma remaining_kept:
  "fge h (Fin q) \<Longrightarrow> \<not> flt (fsub h (Fin q)) (Fin e) \<Longrightarrow> fle (Fin e) (fsub h (Fin q))"
  by (cases h) (auto simp: fle_def fge_def fsub_def)

lemma buy_inv:
  assumes "ledger_inv pf" and "fle e10 q" and "is_finite (fmul q r)"
  shows "ledger_inv (snd (buy pf s q r))"
proof -
  from assms(3) obtain c where c: "fmul q r = Fin c" by (cases "fmul q r") auto
  show ?thesis
  proof (cases "fle (Fin c) (cash pf)")
    case False
    then show ?thesis using assms(1) c by (simp add: buy_def)
  next
    case True
    have entry: "fle e10 (fadd (dict_get (holdings pf) s (Fin 0)) q)"
    proof (cases "map_of (holdings pf) s")
      case None
      then show ?thesis using assms(2) by (simp add: dict_get_def)
    next
      case (Some h)
      with assms(1) have "fle e10 h"
        by (auto simp: ledger_inv_def dest: list_all_map_of)
      then have "fle e10 (fadd h q)"
        using assms(2) by (intro balance_after_buy) simp_all
      then show ?thesis using Some by (simp add: dict_get_def)
    qed
    show ?thesis
      using True assms(1) entry c
      by (simp add: buy_def ledger_inv_def cash_after_buy list_all_update)
  qed
qed

lemma sell_inv:
  assumes "ledger_inv pf" and "is_finite q" and "fle (Fin 0) (fmul q r)"
  shows "ledger_inv (snd (sell pf s q r))"
proof -
  from assms(2) obtain x where q: "q = Fin x" by (cases q) auto
  show ?thesis
    using assms(1,3) unfolding q
    by (auto simp: sell_def ledger_inv_def Let_def cash_after_sell list_all_update
          list_all_delete remaining_kept split: option.splits)
qed

lemma apply_call_inv: "ledger_inv pf \<Longrightarrow> valid_call c \<Longrightarrow> ledger_inv (apply_call pf c)"
  by (cases c) (simp_all add: buy_inv sell_inv)

lemma apply_calls_inv:
  "ledger_inv pf \<Longrightarrow> list_all valid_call cs \<Longrightarrow> ledger_inv (apply_calls pf cs)"
  unfolding apply_calls_def
  by (induction cs arbitrary: pf) (simp_all add: apply_call_inv)

lemma strict_inv_imp_inv: "ledger_inv_strict pf \<Longrightarrow> ledger_inv pf"
  unfolding ledger_inv_strict_def ledger_inv_def
  by (auto simp: list_all_iff fle_def)

text \<open>
  Claim C2, as amended.  Start from a ledger with cash \<open>\<ge> 0\<close> and every
  stored balance at least \<^verbatim>\<open>1e-10\<close> (in particular from one with every
  balance strictly above it), and apply any sequence of calls in which every
  buy is for at least \<^verbatim>\<open>1e-10\<close> shares at a finite computed cost and
  every sell is of a finite amount with computed proceeds \<open>\<ge> 0\<close>: after
  every call the cash is still \<open>\<ge> 0\<close> and every stored balance is still
  at least \<^verbatim>\<open>1e-10\<close> (not strictly more: a sell that leaves exactly
  \<^verbatim>\<open>1e-10\<close> keeps the entry).  A successful buy leaves the cash at
  \<open>cash - shares \<sqdot> price\<close> and the symbol's balance at
  \<open>balance + shares\<close>; a successful sell leaves the cash at
  \<open>cash + shares \<sqdot> price\<close> and the balance at \<open>balance - shares\<close>,
  or removes the entry, and with it the worth of the remainder, when that is
  below \<^verbatim>\<open>1e-10\<close>.  Each of these is the result of the operation as
  the code computes it; nothing is stated about \<^verbatim>\<open>get_value\<close>, which
  is summed anew from the results.
\<close>

theorem ledger_invariant_amended:
  "(ledger_inv pf \<and> list_all valid_call cs \<longrightarrow> (\<forall>n. ledger_inv (apply_calls pf (take n cs))))
   \<and> (ledger_inv_strict pf \<longrightarrow> ledger_inv pf)
   \<and> (fst (buy pf s q r)
      \<longrightarrow> cash (snd (buy pf s q r)) = fsub (cash pf) (fmul q r)
        \<and> map_of (holdings (snd (buy pf s q r))) s
             = Some (fadd (dict_get (holdings pf) s (Fin 0)) q))
   \<and> (fst (sell pf s q r)
      \<longrightarrow> cash (snd (sell pf s q r)) = fadd (cash pf) (fmul q r)
        \<and> map_of (holdings (snd (sell pf s q r))) s
             = (if flt (fsub (dict_get (holdings pf) s (Fin 0)) q) e10 then None
                else Some (fsub (dict_get (holdings pf) s (Fin 0)) q)))"
proof (intro conjI impI allI)
  fix n
  assume "ledger_inv pf \<and> list_all valid_call cs"
  then have "ledger_inv pf" and "list_all valid_call (take n cs)"
    by (auto simp: list_all_iff dest: in_set_takeD)
  then show "ledger_inv (apply_calls pf (take n cs))"
    by (rule apply_calls_inv)
next
  assume "ledger_inv_strict pf"
  then show "ledger_inv pf" by (rule strict_inv_imp_inv)
next
  assume a: "fst (buy pf s q r)"
  then show "cash (snd (buy pf s q r)) = fsub (cash pf) (fmul q r)"
    by (auto simp: buy_def Let_def split: if_splits)
  from a show "map_of (holdings (snd (buy pf s q r))) s
             = Some (fadd (dict_get (holdings pf) s (Fin 0)) q)"
    by (auto simp: buy_def Let_def update_conv' split: if_splits)
next
  assume a: "fst (sell pf s q r)"
  then show "cash (snd (sell pf s q r)) = fadd (cash pf) (fmul q r)"
    by (auto simp: sell_def Let_def split: option.splits if_splits)
  from a show "map_of (holdings (snd (sell pf s q r))) s
             = (if flt (fsub (dict_get (holdings pf) s (Fin 0)) q) e10 then None
                else Some (fsub (dict_get (holdings pf) s (Fin 0)) q))"
    by (auto simp: sell_def Let_def dict_get_def update_conv' delete_conv'
             split: option.splits if_splits)
qed

theorem ledger_invariant_amended_witness:
  "ledger_inv (Portfolio (Fin 100))
   \<and> list_all valid_call [Buy ''A'' (Fin 2) (Fin 10), Sell ''A'' (Fin 1) (Fin 12)]
   \<and> ledger_inv (apply_calls (Portfolio (Fin 100))
        [Buy ''A'' (Fin 2) (Fin 10), Sell ''A'' (Fin 1) (Fin 12)])
   \<and> fst (buy (Portfolio (Fin 100)) ''A'' (Fin 2) (Fin 10))
   \<and> cash (snd (buy (Portfolio (Fin 100)) ''A'' (Fin 2) (Fin 10))) = Fin 80
   \<and> fst (sell \<lparr>cash = Fin 80, holdings = [(''A'', Fin 2)], history = []\<rparr> ''A'' (Fin 1) (Fin 12))
   \<and> map_of (holdings (snd (sell \<lparr>cash = Fin 80, holdings = [(''A'', Fin 2)], history = []\<rparr>
                                  ''A'' (Fin 1) (Fin 12)))) ''A'' = Some (Fin 1)"
proof -
  let ?cs = "[Buy ''A'' (Fin 2) (Fin 10), Sell ''A'' (Fin 1) (Fin 12)]"
  let ?pf = "\<lparr>cash = Fin 80, holdings = [(''A'', Fin 2)], history = []\<rparr>"
  have h1: "ledger_inv (Portfolio (Fin 100))" "list_all valid_call ?cs"
    by (simp_all add: ledger_inv_def Portfolio_def)
  have h2: "fst (buy (Portfolio (Fin 100)) ''A'' (Fin 2) (Fin 10))"
    by (simp add: buy_def Portfolio_def)
  have h3: "fst (sell ?pf ''A'' (Fin 1) (Fin 12))"
    by (simp add: sell_def)
  note t1 = ledger_invariant_amended
    [where pf = "Portfolio (Fin 100)" and cs = ?cs and s = "''A''" and q = "Fin 2" and r = "Fin 10"]
  note t2 = ledger_invariant_amended
    [where pf = ?pf and cs = "[]" and s = "''A''" and q = "Fin 1" and r = "Fin 12"]
  from t1 h1 have "ledger_inv (apply_calls (Portfolio (Fin 100)) (take 2 ?cs))"
    by blast
  moreover from t1 h2 have
    "cash (snd (buy (Portfolio (Fin 100)) ''A'' (Fin 2) (Fin 10)))
       = fsub (cash (Portfolio (Fin 100))) (fmul (Fin 2) (Fin 10))"
    by blast
  moreover from t2 h3 have
    "map_of (holdings (snd (sell ?pf ''A'' (Fin 1) (Fin 12)))) ''A''
       = (if flt (fsub (dict_get (holdings ?pf) ''A'' (Fin 0)) (Fin 1)) e10 then None
          else Some (fsub (dict_get (holdings ?pf) ''A'' (Fin 0)) (Fin 1)))"
    by blast
  ultimately show ?thesis
    using h1 h2 h3 by (simp add: Portfolio_def dict_get_def)
qed

text \<open>
  Claim C2 as stated fails on the code.  A sell of \<^verbatim>\<open>1e-10\<close> shares out
  of \<^verbatim>\<open>2e-10\<close> leaves a stored balance of exactly \<^verbatim>\<open>1e-10\<close>,
  not strictly more; a buy of 0 shares stores a balance of 0; a sell of a
  negative amount makes the cash negative; and a sell that deletes a positive
  remainder changes \<^verbatim>\<open>get_value\<close>.
\<close>

theorem ledger_invariant_counterexample:
  "ledger_inv_strict \<lparr>cash = Fin 0, holdings = [(''A'', Fin (2 / 10 ^ 10))], history = []\<rparr>
   \<and> \<not> ledger_inv_strict
         (apply_calls \<lparr>cash = Fin 0, holdings = [(''A'', Fin (2 / 10 ^ 10))], history = []\<rparr>
            [Sell ''A'' (Fin (1 / 10 ^ 10)) (Fin 1)])
   \<and> ledger_inv_strict (Portfolio (Fin 0))
   \<and> \<not> ledger_inv_strict (apply_calls (Portfolio (Fin 0)) [Buy ''A'' (Fin 0) (Fin 1)])
   \<and> ledger_inv_strict \<lparr>cash = Fin 0, holdings = [(''A'', Fin 1)], history = []\<rparr>
   \<and> cash (apply_calls \<lparr>cash = Fin 0, holdings = [(''A'', Fin 1)], history = []\<rparr>
              [Sell ''A'' (Fin (- 1)) (Fin 1)]) = Fin (- 1)
   \<and> fst (sell \<lparr>cash = Fin 0, holdings = [(''A'', Fin (1 + 5 / 10 ^ 11))], history = []\<rparr>
              ''A'' (Fin 1) (Fin 100))
   \<and> get_value
        (snd (sell \<lparr>cash = Fin 0, holdings = [(''A'', Fin (1 + 5 / 10 ^ 11))], history = []\<rparr>
                ''A'' (Fin 1) (Fin 100)))
        [(''A'', Fin 100)]
      \<noteq> get_value \<lparr>cash = Fin 0, holdings = [(''A'', Fin (1 + 5 / 10 ^ 11))], history = []\<rparr>
           [(''A'', Fin 100)]"
  by (simp add: ledger_inv_strict_def apply_calls_def sell_def buy_def Portfolio_def
        get_value_def py_sum_def dict_get_def Let_def)

section \<open>Selling and buying back\<close>

lemma rebuy_affordable:
  "fle (Fin 0) c \<Longrightarrow> fle (Fin x) (fadd c (Fin x))"
  by (cases c) (auto simp: fle_def)

lemma deleted_remainder:
  assumes "fge held q" and "flt (fsub held q) e10"
  shows "\<exists>h x. held = Fin h \<and> q = Fin x \<and> 0 \<le> h - x \<and> h - x < 1 / 10 ^ 10"
  using assms by (cases held; cases q) (auto simp: fge_def fle_def fsub_def)

text \<open>
  Claim C3, as amended.  For every ledger state with cash \<open>\<ge> 0\<close> and every
  successful \<^verbatim>\<open>sell(symbol, shares, price)\<close> whose computed proceeds are
  finite, the \<^verbatim>\<open>buy(symbol, shares, price)\<close> that follows succeeds.  It
  leaves the history and every other balance as they were before the sell,
  and the symbol stored again, so the set of held symbols is restored.  When
  the sell deleted the entry (remaining balance below \<^verbatim>\<open>1e-10\<close>) the
  buy recreates it with balance \<open>shares\<close>, which lies less than
  \<^verbatim>\<open>1e-10\<close> below the prior balance.  The cash ends at
  \<open>(cash + proceeds) - proceeds\<close> and a kept balance at
  \<open>(balance - shares) + shares\<close>, as the code computes them; no fixed
  tolerance is stated for these two.
\<close>

theorem sell_buy_round_trip_amended:
  assumes "fle (Fin 0) (cash pf)" and "fst (sell pf s q r)" and "is_finite (fmul q r)"
  shows "fst (buy (snd (sell pf s q r)) s q r)
     \<and> history (snd (buy (snd (sell pf s q r)) s q r)) = history pf
     \<and> cash (snd (buy (snd (sell pf s q r)) s q r))
         = fsub (fadd (cash pf) (fmul q r)) (fmul q r)
     \<and> map_of (holdings (snd (buy (snd (sell pf s q r)) s q r)))
         = (map_of (holdings pf))(s \<mapsto>
              (if flt (fsub (dict_get (holdings pf) s (Fin 0)) q) e10 then q
               else fadd (fsub (dict_get (holdings pf) s (Fin 0)) q) q))
     \<and> dom (map_of (holdings (snd (buy (snd (sell pf s q r)) s q r))))
         = dom (map_of (holdings pf))
     \<and> (if flt (fsub (dict_get (holdings pf) s (Fin 0)) q) e10
        then 0 \<le> fval (dict_get (holdings pf) s (Fin 0)) - fval q
           \<and> fval (dict_get (holdings pf) s (Fin 0)) - fval q < 1 / 10 ^ 10
           \<and> is_finite (dict_get (holdings pf) s (Fin 0)) \<and> is_finite q
        else map_of (holdings (snd (sell pf s q r))) s
               = Some (fsub (dict_get (holdings pf) s (Fin 0)) q))"
proof -
  from assms(2) obtain held where held: "map_of (holdings pf) s = Some held" "fge held q"
    by (auto simp: sell_def split: option.splits if_splits)
  from assms(3) obtain c where c: "fmul q r = Fin c" by (cases "fmul q r") auto
  have dg: "dict_get (holdings pf) s (Fin 0) = held"
    using held(1) by (simp add: dict_get_def)
  let ?pf1 = "snd (sell pf s q r)"
  let ?rem = "fsub held q"
  have c1: "cash ?pf1 = fadd (cash pf) (Fin c)" and hist1: "history ?pf1 = history pf"
    and m1: "map_of (holdings ?pf1) =
      (if flt ?rem e10 then (map_of (holdings pf))(s := None)
       else (map_of (holdings pf))(s \<mapsto> ?rem))"
    using held c by (simp_all add: sell_def Let_def update_conv' delete_conv')
  have ok: "fle (Fin c) (cash ?pf1)"
    unfolding c1 using assms(1) by (rule rebuy_affordable)
  let ?pf2 = "snd (buy ?pf1 s q r)"
  have b: "fst (buy ?pf1 s q r)" "history ?pf2 = history pf"
    "cash ?pf2 = fsub (fadd (cash pf) (Fin c)) (Fin c)"
    and m2: "map_of (holdings ?pf2) =
      (map_of (holdings ?pf1))(s \<mapsto> fadd (dict_get (holdings ?pf1) s (Fin 0)) q)"
    using ok hist1 c c1 by (simp_all add: buy_def Let_def update_conv')
  have m: "map_of (holdings ?pf2) =
      (map_of (holdings pf))(s \<mapsto> (if flt ?rem e10 then q else fadd ?rem q))"
    by (auto simp: m2 m1 dict_get_def)
  have d: "dom (map_of (holdings ?pf2)) = dom (map_of (holdings pf))"
    unfolding m using held(1) by auto
  have last: "if flt ?rem e10
        then 0 \<le> fval held - fval q \<and> fval held - fval q < 1 / 10 ^ 10
           \<and> is_finite held \<and> is_finite q
        else map_of (holdings ?pf1) s = Some ?rem"
  proof (cases "flt ?rem e10")
    case True
    from deleted_remainder [OF held(2) True] True show ?thesis by auto
  next
    case False
    then show ?thesis by (simp add: m1)
  qed
  from b m d last show ?thesis
    unfolding dg c by simp
qed

theorem sell_buy_round_trip_amended_witness:
  "fle (Fin 0) (cash \<lparr>cash = Fin 0, holdings = [(''A'', Fin 1)], history = []\<rparr>)
   \<and> fst (sell \<lparr>cash = Fin 0, holdings = [(''A'', Fin 1)], history = []\<rparr> ''A'' (Fin 1) (Fin 100))
   \<and> is_finite (fmul (Fin 1) (Fin 100))
   \<and> holdings (snd (sell \<lparr>cash = Fin 0, holdings = [(''A'', Fin 1)], history = []\<rparr>
                       ''A'' (Fin 1) (Fin 100))) = []
   \<and> fst (buy (snd (sell \<lparr>cash = Fin 0, holdings = [(''A'', Fin 1)], history = []\<rparr>
                       ''A'' (Fin 1) (Fin 100))) ''A'' (Fin 1) (Fin 100))
   \<and> dom (map_of (holdings (snd (buy (snd (sell
              \<lparr>cash = Fin 0, holdings = [(''A'', Fin 1)], history = []\<rparr>
              ''A'' (Fin 1) (Fin 100))) ''A'' (Fin 1) (Fin 100))))) = {''A''}"
proof -
  let ?pf = "\<lparr>cash = Fin 0, holdings = [(''A'', Fin 1)], history = []\<rparr>"
  have h1: "fle (Fin 0) (cash ?pf)" by simp
  have h2: "fst (sell ?pf ''A'' (Fin 1) (Fin 100))" by (simp add: sell_def)
  have h3: "is_finite (fmul (Fin 1) (Fin 100))" by simp
  have h4: "holdings (snd (sell ?pf ''A'' (Fin 1) (Fin 100))) = []" by (simp add: sell_def)
  from sell_buy_round_trip_amended [OF h1 h2 h3] h1 h2 h3 h4 show ?thesis by simp
qed

text \<open>
  Claim C3 as stated, for every ledger state, fails on the code: from a
  negative cash the sell succeeds and the buy that follows is rejected, so
  the ledger is left with the sold shares gone and the proceeds in the cash.
\<close>

theorem sell_buy_round_trip_counterexample:
  "fst (sell \<lparr>cash = Fin (- 1), holdings = [(''A'', Fin 1)], history = []\<rparr>
          ''A'' (Fin (1 / 2)) (Fin 1))
   \<and> snd (sell \<lparr>cash = Fin (- 1), holdings = [(''A'', Fin 1)], history = []\<rparr>
            ''A'' (Fin (1 / 2)) (Fin 1))
       = \<lparr>cash = Fin (- (1 / 2)), holdings = [(''A'', Fin (1 / 2))], history = []\<rparr>
   \<and> buy \<lparr>cash = Fin (- (1 / 2)), holdings = [(''A'', Fin (1 / 2))], history = []\<rparr>
          ''A'' (Fin (1 / 2)) (Fin 1)
       = (False, \<lparr>cash = Fin (- (1 / 2)), holdings = [(''A'', Fin (1 / 2))], history = []\<rparr>)"
  by (simp add: sell_def buy_def)

section \<open>Weekly change\<close>

lemma iloc_last: "xs \<noteq> [] \<Longrightarrow> iloc xs (- 1) = last xs"
  by (simp add: iloc_def last_conv_nth nat_diff_distrib')

lemma iloc_first: "xs \<noteq> [] \<Longrightarrow> iloc xs 0 = hd xs"
  by (simp add: iloc_def hd_conv_nth)

lemma iloc_back7: "7 \<le> length xs \<Longrightarrow> iloc xs (- 7) = xs ! (length xs - 7)"
  by (simp add: iloc_def nat_diff_distrib')

lemma weekly_change_unfold:
  "calculate_weekly_change prices =
     (if length prices < 2 then None
      else
        let latest = last prices;
            earlier = (if 7 \<le> length prices then prices ! (length prices - 7) else hd prices)
        in if isnan latest \<or> isnan earlier \<or> flt (fabs earlier) e10 then None
           else Some (fdiv (fsub latest earlier) earlier))"
proof (cases "length prices < 2")
  case True
  then show ?thesis by (simp add: calculate_weekly_change_def)
next
  case False
  then have ne: "prices \<noteq> []" by auto
  show ?thesis
    using False
    by (auto simp: calculate_weekly_change_def Let_def iloc_last [OF ne] iloc_first [OF ne]
        iloc_back7)
qed

lemma weekly_change_finite:
  assumes "2 \<le> length prices" and "last prices = Fin a"
    and "(if 7 \<le> length prices then prices ! (length prices - 7) else hd prices) = Fin b"
    and "1 / 10 ^ 10 \<le> \<bar>b\<bar>"
  shows "calculate_weekly_change prices = Some (Fin ((a - b) / b))"
proof -
  from assms(4) have "b \<noteq> 0" by auto
  with assms show ?thesis
    unfolding weekly_change_unfold by (auto simp: Let_def)
qed




section \<open>Signals on a flat series followed by one point\<close>

lemma flat_then_point:
  assumes "1 \<le> n" and "1 / 10 ^ 10 \<le> p"
  shows "calculate_weekly_change (replicate n (Fin p) @ [fmul (Fin k) (Fin p)])
           = Some (fdiv (fsub (fmul (Fin k) (Fin p)) (Fin p)) (Fin p))"
    and "fdiv (fsub (fmul (Fin k) (Fin p)) (Fin p)) (Fin p) = Fin (k - 1)"
proof -
  let ?xs = "replicate n (Fin p) @ [fmul (Fin k) (Fin p)]"
  have p0: "0 < p" using assms(2) by (smt (verit) divide_pos_pos zero_less_power)
  have len: "2 \<le> length ?xs" using assms(1) by simp
  have lst: "last ?xs = Fin (k * p)" by simp
  have flat: "?xs ! i = Fin p" if "i < n" for i
    using that by (simp add: nth_append)
  have "hd ?xs = Fin p" using assms(1) by (cases n) simp_all
  moreover have "?xs ! (length ?xs - 7) = Fin p" if "7 \<le> length ?xs"
    using that assms(1) by (intro flat) simp
  ultimately have ref: "(if 7 \<le> length ?xs then ?xs ! (length ?xs - 7) else hd ?xs) = Fin p"
    by simp
  have "calculate_weekly_change ?xs = Some (Fin ((k * p - p) / p))"
    using weekly_change_finite [of ?xs "k * p" p] len lst ref assms(2) p0 by simp
  moreover have "(k * p - p) / p = k - 1" using p0 by (simp add: field_simps)
  ultimately show "calculate_weekly_change ?xs
      = Some (fdiv (fsub (fmul (Fin k) (Fin p)) (Fin p)) (Fin p))"
    and "fdiv (fsub (fmul (Fin k) (Fin p)) (Fin p)) (Fin p) = Fin (k - 1)"
    using p0 by simp_all
qed

text \<open>
  Claim C5, as amended.  With the default thresholds and amounts, for a flat
  level \<open>p \<ge> 1e-10\<close> repeated \<open>n \<ge> 1\<close> times (7 times in particular)
  and followed by one point: at \<open>0.94 \<sqdot> p\<close> the weekly change is the
  quotient \<open>(0.94 \<sqdot> p - p) / p\<close> as the code computes it (\<open>-0.06\<close> up
  to the rounding of its three operations) and the signal is BUY with amount
  5.0; at \<open>1.12 \<sqdot> p\<close> the signal is SELL with amount 10.0; at
  \<open>1.03 \<sqdot> p\<close>, for \<open>p \<le> 1e300\<close> so that the product does not
  overflow, it is HOLD with amount 0.0.
\<close>

theorem flat_series_signals_amended:
  assumes "1 \<le> n" and "1 / 10 ^ 10 \<le> p"
  shows "calculate_weekly_change (replicate n (Fin p) @ [fmul (Fin 0.94) (Fin p)])
           = Some (fdiv (fsub (fmul (Fin 0.94) (Fin p)) (Fin p)) (Fin p))
     \<and> generate_signal TradingEngine (replicate n (Fin p) @ [fmul (Fin 0.94) (Fin p)])
           = (BUY, Fin 5.0,
              calculate_weekly_change (replicate n (Fin p) @ [fmul (Fin 0.94) (Fin p)]))
     \<and> generate_signal TradingEngine (replicate n (Fin p) @ [fmul (Fin 1.12) (Fin p)])
           = (SELL, Fin 10.0,
              calculate_weekly_change (replicate n (Fin p) @ [fmul (Fin 1.12) (Fin p)]))
     \<and> (p \<le> 10 ^ 300
        \<longrightarrow> generate_signal TradingEngine (replicate n (Fin p) @ [fmul (Fin 1.03) (Fin p)])
           = (HOLD, Fin 0.0,
              calculate_weekly_change (replicate n (Fin p) @ [fmul (Fin 1.03) (Fin p)])))"
  using flat_then_point [OF assms, of "0.94"] flat_then_point [OF assms, of "1.12"]
    flat_then_point [OF assms, of "1.03"]
  by (simp add: generate_signal_def TradingEngine_def)

theorem flat_series_signals_amended_witness:
  "generate_signal TradingEngine (replicate 7 (Fin 100) @ [fmul (Fin 0.94) (Fin 100)])
           = (BUY, Fin 5.0,
              calculate_weekly_change (replicate 7 (Fin 100) @ [fmul (Fin 0.94) (Fin 100)]))
     \<and> generate_signal TradingEngine (replicate 7 (Fin 100) @ [fmul (Fin 1.12) (Fin 100)])
           = (SELL, Fin 10.0,
              calculate_weekly_change (replicate 7 (Fin 100) @ [fmul (Fin 1.12) (Fin 100)]))
     \<and> generate_signal TradingEngine (replicate 7 (Fin 100) @ [fmul (Fin 1.03) (Fin 100)])
           = (HOLD, Fin 0.0,
              calculate_weekly_change (replicate 7 (Fin 100) @ [fmul (Fin 1.03) (Fin 100)]))"
proof -
  have h: "(1 :: nat) \<le> 7" "1 / 10 ^ 10 \<le> (100 :: real)" "(100 :: real) \<le> 10 ^ 300"
    by simp_all
  from flat_series_signals_amended [OF h(1,2)] h(3) show ?thesis by blast
qed

text \<open>
  Claim C5 as stated, for any positive level, fails on the code: at the
  positive level \<^verbatim>\<open>1e-11\<close> the reference price is below the
  \<^verbatim>\<open>1e-10\<close> guard, the weekly change is \<^verbatim>\<open>None\<close> and the signal
  is HOLD.
\<close>

theorem flat_series_signals_counterexample:
  "(0::real) < 1 / 10 ^ 11
   \<and> calculate_weekly_change
        (replicate 7 (Fin (1 / 10 ^ 11)) @ [fmul (Fin 0.94) (Fin (1 / 10 ^ 11))]) = None
   \<and> generate_signal TradingEngine
        (replicate 7 (Fin (1 / 10 ^ 11)) @ [fmul (Fin 0.94) (Fin (1 / 10 ^ 11))])
       = (HOLD, Fin 0.0, None)"
  by (simp add: generate_signal_def calculate_weekly_change_def iloc_def numeral_eq_Suc)

section \<open>A latest price of zero\<close>

lemma buy_rejects_nan_cost: "fmul sh p = NaN \<Longrightarrow> buy pf s sh p = (False, pf)"
  by (simp add: buy_def fle_def)

lemma zero_latest_buy_signal:
  assumes "2 \<le> length prices" and "last prices = Fin 0"
    and "(if 7 \<le> length prices then prices ! (length prices - 7) else hd prices) = Fin b"
    and "1 / 10 ^ 10 \<le> b"
  shows "calculate_weekly_change prices = Some (Fin (- 1))"
    and "generate_signal TradingEngine prices = (BUY, Fin 5.0, Some (Fin (- 1)))"
proof -
  have b0: "0 < b" using assms(4) by (smt (verit) divide_pos_pos zero_less_power)
  then have "1 / 10 ^ 10 \<le> \<bar>b\<bar>" using assms(4) by simp
  from weekly_change_finite [OF assms(1,2,3) this] b0
  show wc: "calculate_weekly_change prices = Some (Fin (- 1))" by simp
  then show "generate_signal TradingEngine prices = (BUY, Fin 5.0, Some (Fin (- 1)))"
    by (simp add: generate_signal_def TradingEngine_def)
qed

text \<open>
  Claim C10, as amended.  The \<^verbatim>\<open>1e-10\<close> guard of the weekly change
  protects the earlier reference price only: on every series of at least two
  points whose latest price is 0 and whose reference price is a finite number
  \<open>\<ge> 1e-10\<close>, the weekly change is \<open>-1\<close> and the default engine
  decides BUY.  \<^verbatim>\<open>execute_trades\<close> then sets the shares of that trade to
  0, whereas the backtest driver divides the trade amount by the zero price
  with no guard.  That division, between a Python float and a NumPy scalar,
  does not fail: it yields \<open>+inf\<close> shares, and the ledger rejects the buy
  because the cost \<open>inf \<sqdot> 0\<close> is NaN; ledger and trade log stay as they
  were.
\<close>

theorem zero_latest_price_amended:
  "(2 \<le> length prices \<and> last prices = Fin 0
      \<and> (if 7 \<le> length prices then prices ! (length prices - 7) else hd prices) = Fin b
      \<and> 1 / 10 ^ 10 \<le> b
    \<longrightarrow> calculate_weekly_change prices = Some (Fin (- 1))
      \<and> generate_signal TradingEngine prices = (BUY, Fin 5.0, Some (Fin (- 1)))
      \<and> execute_trades TradingEngine [(s, prices)] =
          [(s, \<lparr>t_signal = BUY, t_amount = Fin 5.0, t_shares = Fin 0,
                t_price = Some (Fin 0), t_weekly_change = Some (Fin (- 1))\<rparr>)])
   \<and> (t_amount tr = Fin a \<and> 0 < a \<longrightarrow> order_shares tr (Fin 0) = PInf)
   \<and> (t_signal tr = BUY \<and> t_amount tr = Fin a \<and> 0 < a
        \<and> map_of current_prices s = Some (Fin 0)
      \<longrightarrow> process_trade d current_prices (pf, tlog) (s, tr) = (pf, tlog))"
proof (intro conjI impI)
  assume a: "2 \<le> length prices \<and> last prices = Fin 0
      \<and> (if 7 \<le> length prices then prices ! (length prices - 7) else hd prices) = Fin b
      \<and> 1 / 10 ^ 10 \<le> b"
  then have ne: "prices \<noteq> []" by auto
  from a show wc: "calculate_weekly_change prices = Some (Fin (- 1))"
    by (intro zero_latest_buy_signal) auto
  from a show gs: "generate_signal TradingEngine prices = (BUY, Fin 5.0, Some (Fin (- 1)))"
    by (intro zero_latest_buy_signal) auto
  from a ne show "execute_trades TradingEngine [(s, prices)] =
          [(s, \<lparr>t_signal = BUY, t_amount = Fin 5.0, t_shares = Fin 0,
                t_price = Some (Fin 0), t_weekly_change = Some (Fin (- 1))\<rparr>)]"
    by (simp add: execute_trades_def gs iloc_last truthy_def)
next
  assume "t_amount tr = Fin a \<and> 0 < a"
  then show "order_shares tr (Fin 0) = PInf"
    by (simp add: order_shares_def signed_inf_def)
next
  assume a: "t_signal tr = BUY \<and> t_amount tr = Fin a \<and> 0 < a
        \<and> map_of current_prices s = Some (Fin 0)"
  then have "order_shares tr (Fin 0) = PInf"
    by (simp add: order_shares_def signed_inf_def)
  moreover have "buy pf s PInf (Fin 0) = (False, pf)"
    by (rule buy_rejects_nan_cost) (simp add: signed_inf_def)
  ultimately show "process_trade d current_prices (pf, tlog) (s, tr) = (pf, tlog)"
    using a by (simp add: process_trade_def)
qed

theorem zero_latest_price_amended_witness:
  "calculate_weekly_change [Fin 1, Fin 0] = Some (Fin (- 1))
   \<and> generate_signal TradingEngine [Fin 1, Fin 0] = (BUY, Fin 5.0, Some (Fin (- 1)))
   \<and> execute_trades TradingEngine [(''A'', [Fin 1, Fin 0])] =
          [(''A'', \<lparr>t_signal = BUY, t_amount = Fin 5.0, t_shares = Fin 0,
                t_price = Some (Fin 0), t_weekly_change = Some (Fin (- 1))\<rparr>)]
   \<and> process_trade 7 [(''A'', Fin 0)] (Portfolio (Fin 100), [])
        (''A'', \<lparr>t_signal = BUY, t_amount = Fin 5.0, t_shares = Fin 0,
                t_price = Some (Fin 0), t_weekly_change = Some (Fin (- 1))\<rparr>)
       = (Portfolio (Fin 100), [])"
  using zero_latest_price_amended
    [where prices = "[Fin 1, Fin 0]" and b = 1 and s = "''A''" and a = 5
       and tr = "\<lparr>t_signal = BUY, t_amount = Fin 5.0, t_shares = Fin 0,
                  t_price = Some (Fin 0), t_weekly_change = Some (Fin (- 1))\<rparr>"
       and current_prices = "[(''A'', Fin 0)]" and d = 7 and pf = "Portfolio (Fin 100)"
       and tlog = "[]"]
  by simp

text \<open>
  Claim C10 as stated says the driver's division is not total.  On the code
  the division has a value at a zero price, and the driver's step completes.
\<close>

theorem zero_latest_price_counterexample:
  "order_shares \<lparr>t_signal = BUY, t_amount = Fin 5.0, t_shares = Fin 0,
                 t_price = Some (Fin 0), t_weekly_change = Some (Fin (- 1))\<rparr> (Fin 0) = PInf
   \<and> process_trade 7 [(''A'', Fin 0)] (Portfolio (Fin 100), [])
        (''A'', \<lparr>t_signal = BUY, t_amount = Fin 5.0, t_shares = Fin 0,
                t_price = Some (Fin 0), t_weekly_change = Some (Fin (- 1))\<rparr>)
       = (Portfolio (Fin 100), [])"
  by (simp add: order_shares_def signed_inf_def process_trade_def buy_def Portfolio_def fle_def)

section \<open>Max drawdown\<close>

lemma py_max_Fin [simp]: "py_max (Fin a) (Fin b) = Fin (max a b)"
  by (simp add: py_max_def max_def)

lemma py_truediv_Fin: "m \<noteq> 0 \<Longrightarrow> py_truediv (Fin x) (Fin m) = Inr (Fin (x / m))"
  by (simp add: py_truediv_def)




lemma peak_from_ge: "m \<le> peak_from m vs i"
  by (simp add: peak_from_def)















lemma flt_trans: "flt a b \<Longrightarrow> flt b c \<Longrightarrow> flt a c"
  by (cases a; cases b; cases c) auto









section \<open>The backtest run\<close>

lemma buy_history: "history (snd (buy pf s sh p)) = history pf"
  by (simp add: buy_def Let_def)

lemma sell_history: "history (snd (sell pf s sh p)) = history pf"
  by (simp add: sell_def Let_def split: option.splits)

lemma process_trade_history:
  "history (fst (process_trade d cp st item)) = history (fst st)"
proof -
  obtain pf tlog where st: "st = (pf, tlog)" by (cases st)
  obtain s tr where item: "item = (s, tr)" by (cases item)
  have b: "history pf' = history pf" if "buy pf s sh p = (ok, pf')" for ok pf' sh p
    using buy_history [of pf s sh p] that by simp
  have c: "history pf' = history pf" if "sell pf s sh p = (ok, pf')" for ok pf' sh p
    using sell_history [of pf s sh p] that by simp
  show ?thesis
    unfolding st item
    by (auto simp: process_trade_def Let_def b c split: option.splits prod.splits bool.splits)
qed

lemma process_trades_history:
  "history (fst (foldl (process_trade d cp) st items)) = history (fst st)"
  by (induction items arbitrary: st) (simp_all add: process_trade_history)

lemma record_state_history:
  "history (record_state pf d cp) = history pf @
     [\<lparr>s_date = d, s_cash = cash pf, holdings_value = fsub (get_value pf cp) (cash pf),
       total_value = get_value pf cp, s_holdings = holdings pf\<rparr>]"
  by (simp add: record_state_def Let_def)

lemma week_step_history:
  "\<exists>ext. history (fst (week_step alg ad sd i st)) = history (fst st) @ ext"
proof -
  have "\<exists>ext. history (record_state pf d cp) = history (fst st) @ ext"
    if "foldl (process_trade d cp) st items = (pf, tlog)" for pf tlog d cp items
    using process_trades_history [of d cp st items] that
    by (simp add: record_state_history)
  then show ?thesis
    by (auto simp: week_step_def Let_def split: prod.splits)
qed

lemma run_loop_history:
  "\<exists>ext. history (fst (run_loop alg ad sd weeks i wp st)) = history (fst st) @ ext"
proof (induction alg ad sd weeks i wp st rule: run_loop.induct)
  case (1 alg ad sd weeks i wp st)
  show ?case
  proof (cases "i < length ad \<and> wp < weeks")
    case True
    from 1 [OF True] obtain ext where
      "history (fst (run_loop alg ad sd weeks (i + 7) (wp + 1) (week_step alg ad sd i st))) =
         history (fst (week_step alg ad sd i st)) @ ext"
      by blast
    moreover obtain ext' where "history (fst (week_step alg ad sd i st)) = history (fst st) @ ext'"
      using week_step_history by blast
    ultimately show ?thesis
      using True by (subst run_loop.simps) auto
  next
    case False
    then show ?thesis by (subst run_loop.simps) auto
  qed
qed

lemma get_value_empty: "get_value (Portfolio c) prices = c"
  by (simp add: get_value_def Portfolio_def py_sum_def)

lemma first_snapshot:
  "history (record_state (Portfolio c) d cp) =
     [\<lparr>s_date = d, s_cash = c, holdings_value = fsub c c, total_value = c, s_holdings = []\<rparr>]"
  by (simp add: record_state_history get_value_empty) (simp add: Portfolio_def)

lemma flt_irrefl: "\<not> flt a a"
  by (cases a) simp_all

lemma py_max_positive: "flt (Fin 0) mv \<Longrightarrow> flt (Fin 0) (py_max mv t)"
  by (auto simp: py_max_def fgt_def intro: flt_trans)

lemma py_truediv_positive: "flt (Fin 0) b \<Longrightarrow> py_truediv a b = Inr (fdiv a b)"
  by (auto simp: py_truediv_def flt_irrefl)

lemma drawdown_loop_total:
  "flt (Fin 0) mv \<Longrightarrow> \<exists>mv' md'. drawdown_loop mv md xs = Inr (mv', md')"
proof (induction xs arbitrary: mv md)
  case Nil
  then show ?case by simp
next
  case (Cons x xs)
  from Cons.prems have pos: "flt (Fin 0) (py_max mv (total_value x))"
    by (rule py_max_positive)
  from Cons.IH [OF pos] show ?case
    by (simp add: Let_def py_truediv_positive [OF pos])
qed

lemma calculate_results_total:
  assumes "history pf \<noteq> []" and "flt (Fin 0) (total_value (hd (history pf)))"
  shows "\<exists>r. calculate_results pf tlog = Inr r \<and> portfolio_history r = history pf
            \<and> initial_value r = total_value (hd (history pf))"
proof -
  from drawdown_loop_total [OF assms(2)] obtain mv' md' where
    "drawdown_loop (total_value (hd (history pf))) (Fin 0) (history pf) = Inr (mv', md')"
    by blast
  then show ?thesis
    using assms by (simp add: calculate_results_def Let_def py_truediv_positive)
qed

lemma calculate_results_failure:
  "calculate_results pf tlog = Inl e \<Longrightarrow>
     (e = EmptyHistory \<and> history pf = []) \<or> e = ZeroDivisionError"
proof -
  have "e = ZeroDivisionError" if "drawdown_loop mv md xs = Inl e" for mv md xs
    using that
    by (induction xs arbitrary: mv md)
       (auto simp: Let_def py_truediv_def split: sum.splits if_splits)
  then show "calculate_results pf tlog = Inl e \<Longrightarrow> ?thesis"
    by (auto simp: calculate_results_def Let_def py_truediv_def split: if_splits sum.splits)
qed

lemma calculate_results_initial:
  "calculate_results pf tlog = Inr r \<Longrightarrow>
     initial_value r = total_value (hd (history pf)) \<and> portfolio_history r = history pf"
  by (auto simp: calculate_results_def Let_def split: if_splits sum.splits)

lemma timestamps_all_dates: "set (all_dates_of sd) = timestamps sd"
  by (auto simp: all_dates_of_def timestamps_def)

lemma length_all_dates: "length (all_dates_of sd) = card (timestamps sd)"
proof -
  have "distinct (all_dates_of sd)" by (simp add: all_dates_of_def)
  then show ?thesis
    using timestamps_all_dates [of sd] distinct_card by fastforce
qed

lemma timestamps_empty: "timestamps [] = {}"
  by (simp add: timestamps_def)


lemma run_unfold:
  assumes "14 \<le> card (timestamps sd)"
  shows "\<exists>pf tlog ext.
           run sd weeks c = calculate_results pf tlog
         \<and> history pf =
             \<lparr>s_date = all_dates_of sd ! 0, s_cash = c, holdings_value = fsub c c,
              total_value = c, s_holdings = []\<rparr> # ext
         \<and> (weeks \<le> 0 \<longrightarrow> ext = [])"
proof -
  let ?ad = "all_dates_of sd"
  let ?cp = "List.map_filter (\<lambda>(symbol, prices).
                map_option (\<lambda>v. (symbol, v)) (map_of prices (?ad ! 0))) sd"
  let ?st0 = "(record_state (Portfolio c) (?ad ! 0) ?cp, [] :: trade_entry list)"
  let ?fin = "run_loop StockTradingAlgorithm ?ad sd weeks 7 0 ?st0"
  from assms have ne: "sd \<noteq> []" by (auto simp: timestamps_empty)
  from assms have len: "\<not> length ?ad < 14" by (simp add: length_all_dates)
  have r: "run sd weeks c = calculate_results (fst ?fin) (snd ?fin)"
    using ne len by (simp add: run_def Let_def split: prod.splits)
  obtain ext where ext: "history (fst ?fin) = history (fst ?st0) @ ext"
    using run_loop_history by blast
  have stop: "?fin = ?st0" if "weeks \<le> 0"
    using that by (subst run_loop.simps) simp
  have "ext = []" if "weeks \<le> 0"
    using ext stop [OF that] by simp
  with r ext show ?thesis
    by (auto simp: first_snapshot)
qed

lemma run_insufficient:
  "card (timestamps sd) < 14 \<Longrightarrow> run sd weeks c = Inl InsufficientData"
  by (simp add: run_def Let_def length_all_dates)

lemma run_failure_kinds:
  "run sd weeks c = Inl e \<Longrightarrow>
     (e = InsufficientData \<and> card (timestamps sd) < 14) \<or> (e = ZeroDivisionError \<and> 14 \<le> card (timestamps sd))"
proof (cases "card (timestamps sd) < 14")
  case True
  assume "run sd weeks c = Inl e"
  with True show ?thesis by (simp add: run_insufficient)
next
  case False
  assume e: "run sd weeks c = Inl e"
  from False obtain pf tlog ext where
    "run sd weeks c = calculate_results pf tlog" and "history pf \<noteq> []"
    using run_unfold [of sd weeks c] by auto
  with e calculate_results_failure [of pf tlog e] False show ?thesis by auto
qed

subsection \<open>Runs on a sample of 14 dates\<close>

lemma sample_dates:
  "all_dates_of [(''A'', [(0, Fin 100), (1, Fin 100), (2, Fin 100), (3, Fin 100), (4, Fin 100), (5, Fin 100), (6, Fin 100), (7, Fin 100), (8, Fin 100), (9, Fin 100), (10, Fin 100), (11, Fin 100), (12, Fin 100), (13, Fin 100)])] = [0, 1, 2, 3, 4, 5, 6, 7, 8, 9, 10, 11, 12, 13]"
  by (simp add: all_dates_of_def)

lemma sample_run_no_weeks:
  "run [(''A'', [(0, Fin 100), (1, Fin 100), (2, Fin 100), (3, Fin 100), (4, Fin 100), (5, Fin 100), (6, Fin 100), (7, Fin 100), (8, Fin 100), (9, Fin 100), (10, Fin 100), (11, Fin 100), (12, Fin 100), (13, Fin 100)])] 0 (Fin 10000) =
     Inr \<lparr>initial_value = Fin 10000, final_value = Fin 10000, total_return = Fin 0,
          total_return_pct = Fin 0, max_drawdown = Fin 0, total_trades = 0, buy_trades = 0,
          sell_trades = 0,
          portfolio_history =
            [\<lparr>s_date = 0, s_cash = Fin 10000, holdings_value = Fin 0,
              total_value = Fin 10000, s_holdings = []\<rparr>],
          trade_log = [], final_holdings = []\<rparr>"
  unfolding run_def sample_dates
  by (simp add: Let_def run_loop.simps record_state_def get_value_def py_sum_def Portfolio_def
        calculate_results_def py_truediv_def List.map_filter_def)

lemma sample_run_zero_cash:
  "run [(''A'', [(0, Fin 100), (1, Fin 100), (2, Fin 100), (3, Fin 100), (4, Fin 100), (5, Fin 100), (6, Fin 100), (7, Fin 100), (8, Fin 100), (9, Fin 100), (10, Fin 100), (11, Fin 100), (12, Fin 100), (13, Fin 100)])] 0 (Fin 0) = Inl ZeroDivisionError"
  unfolding run_def sample_dates
  by (simp add: Let_def run_loop.simps record_state_def get_value_def py_sum_def Portfolio_def
        calculate_results_def py_truediv_def List.map_filter_def)


lemma sample_week_step:
  "week_step StockTradingAlgorithm [0, 1, 2, 3, 4, 5, 6, 7, 8, 9, 10, 11, 12, 13]
     [(''A'', [(0, Fin 100), (1, Fin 100), (2, Fin 100), (3, Fin 100), (4, Fin 100), (5, Fin 100), (6, Fin 100), (7, Fin 100), (8, Fin 100), (9, Fin 100), (10, Fin 100), (11, Fin 100), (12, Fin 100), (13, Fin 100)])] 7 (pf, tlog)
   = (record_state pf 7 [(''A'', Fin 100)], tlog)"
  by (simp add: week_step_def Let_def algorithm_run_def filter_stocks_def is_suitable_def
        StockTradingAlgorithm_def StockSelector_def execute_trades_def List.map_filter_def
        iloc_def)

lemma sample_run_one_week:
  "run [(''A'', [(0, Fin 100), (1, Fin 100), (2, Fin 100), (3, Fin 100), (4, Fin 100), (5, Fin 100), (6, Fin 100), (7, Fin 100), (8, Fin 100), (9, Fin 100), (10, Fin 100), (11, Fin 100), (12, Fin 100), (13, Fin 100)])] 1 (Fin 10000) =
     Inr \<lparr>initial_value = Fin 10000, final_value = Fin 10000, total_return = Fin 0,
          total_return_pct = Fin 0, max_drawdown = Fin 0, total_trades = 0, buy_trades = 0,
          sell_trades = 0,
          portfolio_history =
            [\<lparr>s_date = 0, s_cash = Fin 10000, holdings_value = Fin 0,
              total_value = Fin 10000, s_holdings = []\<rparr>,
             \<lparr>s_date = 7, s_cash = Fin 10000, holdings_value = Fin 0,
              total_value = Fin 10000, s_holdings = []\<rparr>],
          trade_log = [], final_holdings = []\<rparr>"
  unfolding run_def sample_dates
  by (simp add: Let_def run_loop.simps sample_week_step record_state_def get_value_def py_sum_def
        Portfolio_def calculate_results_def py_truediv_def List.map_filter_def)

lemma sample_run_zero_cash_one_week:
  "run [(''A'', [(0, Fin 100), (1, Fin 100), (2, Fin 100), (3, Fin 100), (4, Fin 100), (5, Fin 100), (6, Fin 100), (7, Fin 100), (8, Fin 100), (9, Fin 100), (10, Fin 100), (11, Fin 100), (12, Fin 100), (13, Fin 100)])] 1 (Fin 0) = Inl ZeroDivisionError"
  unfolding run_def sample_dates
  by (simp add: Let_def run_loop.simps sample_week_step record_state_def get_value_def py_sum_def
        Portfolio_def calculate_results_def py_truediv_def List.map_filter_def)

lemma sample_timestamps:
  "card (timestamps [(''A'', [(0, Fin 100), (1, Fin 100), (2, Fin 100), (3, Fin 100), (4, Fin 100), (5, Fin 100), (6, Fin 100), (7, Fin 100), (8, Fin 100), (9, Fin 100), (10, Fin 100), (11, Fin 100), (12, Fin 100), (13, Fin 100)])]) = 14"
  using length_all_dates [of "[(''A'', [(0, Fin 100), (1, Fin 100), (2, Fin 100), (3, Fin 100), (4, Fin 100), (5, Fin 100), (6, Fin 100), (7, Fin 100), (8, Fin 100), (9, Fin 100), (10, Fin 100), (11, Fin 100), (12, Fin 100), (13, Fin 100)])]"]
  unfolding sample_dates by simp

subsection \<open>Outcomes of a run\<close>

text \<open>
  Claim C7, as amended.  For every stock data and number of weeks:
  \<^verbatim>\<open>run\<close> fails with \<open>InsufficientData\<close> when fewer than 14 distinct
  timestamps exist across all input series, whatever the number of symbols;
  it never fails with \<open>EmptyHistory\<close>, because the initial snapshot is
  always recorded before the history is tested for emptiness; and with at
  least 14 distinct timestamps and a positive initial cash it returns a
  complete summary, for any prices and any trades attempted, the history
  holding the initial snapshot alone when the number of weeks is not
  positive.  (A zero initial cash is left out: the return is then a division
  by zero.)
\<close>

theorem run_outcomes_amended:
  "(card (timestamps sd) < 14 \<longrightarrow> run sd weeks c = Inl InsufficientData)
   \<and> run sd weeks c \<noteq> Inl EmptyHistory
   \<and> (14 \<le> card (timestamps sd) \<and> flt (Fin 0) c
      \<longrightarrow> (\<exists>r. run sd weeks c = Inr r \<and> portfolio_history r \<noteq> []
              \<and> (weeks \<le> 0 \<longrightarrow> length (portfolio_history r) = 1)))"
proof (intro conjI impI)
  assume "card (timestamps sd) < 14"
  then show "run sd weeks c = Inl InsufficientData" by (rule run_insufficient)
next
  show "run sd weeks c \<noteq> Inl EmptyHistory"
    using run_failure_kinds [of sd weeks c EmptyHistory] by auto
next
  assume a: "14 \<le> card (timestamps sd) \<and> flt (Fin 0) c"
  then obtain pf tlog ext where r: "run sd weeks c = calculate_results pf tlog"
    and h: "history pf =
             \<lparr>s_date = all_dates_of sd ! 0, s_cash = c, holdings_value = fsub c c,
              total_value = c, s_holdings = []\<rparr> # ext"
    and w: "weeks \<le> 0 \<longrightarrow> ext = []"
    using run_unfold [of sd weeks c] by blast
  from h a have "history pf \<noteq> []" "flt (Fin 0) (total_value (hd (history pf)))" by simp_all
  from calculate_results_total [OF this, of tlog] r h w
  show "\<exists>r. run sd weeks c = Inr r \<and> portfolio_history r \<noteq> []
              \<and> (weeks \<le> 0 \<longrightarrow> length (portfolio_history r) = 1)"
    by auto
qed

theorem run_outcomes_amended_witness:
  "14 \<le> card (timestamps [(''A'', [(0, Fin 100), (1, Fin 100), (2, Fin 100), (3, Fin 100), (4, Fin 100), (5, Fin 100), (6, Fin 100), (7, Fin 100), (8, Fin 100), (9, Fin 100), (10, Fin 100), (11, Fin 100), (12, Fin 100), (13, Fin 100)])])
   \<and> flt (Fin 0) (Fin 10000)
   \<and> (\<exists>r. run [(''A'', [(0, Fin 100), (1, Fin 100), (2, Fin 100), (3, Fin 100), (4, Fin 100), (5, Fin 100), (6, Fin 100), (7, Fin 100), (8, Fin 100), (9, Fin 100), (10, Fin 100), (11, Fin 100), (12, Fin 100), (13, Fin 100)])] 1 (Fin 10000) = Inr r \<and> portfolio_history r \<noteq> [])
   \<and> card (timestamps []) < 14
   \<and> run [] 1 (Fin 10000) = Inl InsufficientData"
proof -
  have h: "14 \<le> card (timestamps [(''A'', [(0, Fin 100), (1, Fin 100), (2, Fin 100), (3, Fin 100), (4, Fin 100), (5, Fin 100), (6, Fin 100), (7, Fin 100), (8, Fin 100), (9, Fin 100), (10, Fin 100), (11, Fin 100), (12, Fin 100), (13, Fin 100)])])" "flt (Fin 0) (Fin 10000)"
    "card (timestamps []) < 14"
    by (simp_all add: sample_timestamps timestamps_empty)
  from run_outcomes_amended [of "[(''A'', [(0, Fin 100), (1, Fin 100), (2, Fin 100), (3, Fin 100), (4, Fin 100), (5, Fin 100), (6, Fin 100), (7, Fin 100), (8, Fin 100), (9, Fin 100), (10, Fin 100), (11, Fin 100), (12, Fin 100), (13, Fin 100)])]" 1 "Fin 10000"] h(1,2)
  have "\<exists>r. run [(''A'', [(0, Fin 100), (1, Fin 100), (2, Fin 100), (3, Fin 100), (4, Fin 100), (5, Fin 100), (6, Fin 100), (7, Fin 100), (8, Fin 100), (9, Fin 100), (10, Fin 100), (11, Fin 100), (12, Fin 100), (13, Fin 100)])] 1 (Fin 10000) = Inr r \<and> portfolio_history r \<noteq> []"
    by blast
  moreover from run_outcomes_amended [of "[]" 1 "Fin 10000"] h(3)
  have "run [] 1 (Fin 10000) = Inl InsufficientData"
    by blast
  ultimately show ?thesis using h by simp
qed

text \<open>
  Claim C7 as stated fails on the code.  With 14 timestamps and no week to
  run, no snapshot beyond the initial one is recorded and the run still
  returns a summary; with a zero initial cash the run ends in a
  \<^verbatim>\<open>ZeroDivisionError\<close>, which is neither of the two failures.
\<close>

theorem run_outcomes_counterexample:
  "run [(''A'', [(0, Fin 100), (1, Fin 100), (2, Fin 100), (3, Fin 100), (4, Fin 100), (5, Fin 100), (6, Fin 100), (7, Fin 100), (8, Fin 100), (9, Fin 100), (10, Fin 100), (11, Fin 100), (12, Fin 100), (13, Fin 100)])] 0 (Fin 10000) =
     Inr \<lparr>initial_value = Fin 10000, final_value = Fin 10000, total_return = Fin 0,
          total_return_pct = Fin 0, max_drawdown = Fin 0, total_trades = 0, buy_trades = 0,
          sell_trades = 0,
          portfolio_history =
            [\<lparr>s_date = 0, s_cash = Fin 10000, holdings_value = Fin 0,
              total_value = Fin 10000, s_holdings = []\<rparr>],
          trade_log = [], final_holdings = []\<rparr>
   \<and> run [(''A'', [(0, Fin 100), (1, Fin 100), (2, Fin 100), (3, Fin 100), (4, Fin 100), (5, Fin 100), (6, Fin 100), (7, Fin 100), (8, Fin 100), (9, Fin 100), (10, Fin 100), (11, Fin 100), (12, Fin 100), (13, Fin 100)])] 1 (Fin 0) = Inl ZeroDivisionError"
  using sample_run_no_weeks sample_run_zero_cash_one_week by simp

subsection \<open>The initial value\<close>

text \<open>
  Claim C9.  For every successful run the summary's
  \<^verbatim>\<open>initial_value\<close> is the initial cash exactly: the first snapshot of
  the history is taken on the earliest date with empty holdings, its cash and
  total value both the initial cash, and \<^verbatim>\<open>get_value\<close> of a fresh
  portfolio is its cash for every price map.
\<close>

theorem initial_value_is_initial_cash:
  assumes "run sd weeks c = Inr r"
  shows "initial_value r = c
       \<and> hd (portfolio_history r) =
           \<lparr>s_date = all_dates_of sd ! 0, s_cash = c, holdings_value = fsub c c,
            total_value = c, s_holdings = []\<rparr>
       \<and> (\<forall>prices. get_value (Portfolio c) prices = c)"
proof -
  have "14 \<le> card (timestamps sd)"
    using assms run_insufficient [of sd weeks c] by (cases "card (timestamps sd) < 14") auto
  then obtain pf tlog ext where "run sd weeks c = calculate_results pf tlog"
    and "history pf =
             \<lparr>s_date = all_dates_of sd ! 0, s_cash = c, holdings_value = fsub c c,
              total_value = c, s_holdings = []\<rparr> # ext"
    using run_unfold [of sd weeks c] by blast
  with assms calculate_results_initial [of pf tlog r] show ?thesis
    by (simp add: get_value_empty)
qed


theorem initial_value_is_initial_cash_witness:
  "initial_value
     \<lparr>initial_value = Fin 10000, final_value = Fin 10000, total_return = Fin 0,
      total_return_pct = Fin 0, max_drawdown = Fin 0, total_trades = 0, buy_trades = 0,
      sell_trades = 0,
      portfolio_history =
        [\<lparr>s_date = 0, s_cash = Fin 10000, holdings_value = Fin 0,
          total_value = Fin 10000, s_holdings = []\<rparr>,
         \<lparr>s_date = 7, s_cash = Fin 10000, holdings_value = Fin 0,
          total_value = Fin 10000, s_holdings = []\<rparr>],
      trade_log = [], final_holdings = []\<rparr> = Fin 10000
   \<and> get_value (Portfolio (Fin 10000)) [(''A'', Fin 100)] = Fin 10000"
  using initial_value_is_initial_cash [OF sample_run_one_week] by simp

section \<open>Predictability score\<close>

lemma volatility_needs_two_returns:
  "\<not> isnan (calculate_volatility prices) \<Longrightarrow> 2 \<le> length (dropna (pct_change prices))"
  by (auto simp: calculate_volatility_def series_std_def Let_def split: if_splits)

lemma product_positive_iff: "fgt (fmul a b) (Fin 0) = same_sign a b"
  by (cases a; cases b)
     (auto simp: same_sign_def fgt_def signed_inf_def zero_less_mult_iff sgn_if)

lemma zip_tl_butlast:
  "zip (tl rs) (butlast rs) = map (\<lambda>i. (rs ! Suc i, rs ! i)) [0..<length rs - 1]"
  by (rule nth_equalityI) (auto simp: nth_tl nth_butlast)

lemma same_direction_count:
  "same_direction rs =
     length (filter (\<lambda>i. same_sign (rs ! i) (rs ! Suc i)) [0..<length rs - 1])"
proof -
  have "same_sign a b = same_sign b a" for a b by (auto simp: same_sign_def)
  then show ?thesis
    unfolding same_direction_def zip_tl_butlast
    by (simp add: filter_map comp_def product_positive_iff)
qed

lemma score_unfold:
  "calculate_predictability_score sel prices =
     (if int (length prices) < min_data_points sel \<or> isnan (calculate_volatility prices)
      then Fin 0
      else fadd (fmul (Fin 0.6) (volatility_score sel (calculate_volatility prices)))
                (fmul (Fin 0.4) (spec_consistency (dropna (pct_change prices)))))"
proof (cases "int (length prices) < min_data_points sel \<or> isnan (calculate_volatility prices)")
  case True
  then show ?thesis by (auto simp: calculate_predictability_score_def Let_def)
next
  case False
  then have "2 \<le> length (dropna (pct_change prices))"
    by (simp add: volatility_needs_two_returns)
  with False show ?thesis
    by (simp add: calculate_predictability_score_def Let_def spec_consistency_def
          same_direction_count)
qed

lemma score_few_returns:
  "length (dropna (pct_change prices)) < 2 \<Longrightarrow> calculate_predictability_score sel prices = Fin 0"
  by (simp add: calculate_predictability_score_def Let_def)

lemma fle_not_flt: "fle a b \<Longrightarrow> \<not> flt b a"
  by (cases a; cases b) (auto simp: fle_def)

lemma volatility_score_outside:
  "flt v (min_volatility sel) \<or> fgt v (max_volatility sel) \<Longrightarrow> volatility_score sel v = Fin 0"
  by (simp add: volatility_score_def)

lemma volatility_score_inside:
  "\<not> flt v (min_volatility sel) \<Longrightarrow> \<not> fgt v (max_volatility sel) \<Longrightarrow>
   volatility_score sel v =
     fsub (Fin 1)
       (fdiv (fabs (fsub v (fdiv (fadd (min_volatility sel) (max_volatility sel)) (Fin 2))))
             (fdiv (fsub (max_volatility sel) (min_volatility sel)) (Fin 2)))"
  by (simp add: volatility_score_def Let_def)

lemma volatility_score_midpoint:
  assumes "is_finite (fdiv (fadd (min_volatility sel) (max_volatility sel)) (Fin 2))"
    and "fle (min_volatility sel) (fdiv (fadd (min_volatility sel) (max_volatility sel)) (Fin 2))"
    and "fle (fdiv (fadd (min_volatility sel) (max_volatility sel)) (Fin 2)) (max_volatility sel)"
    and "flt (Fin 0) (fdiv (fsub (max_volatility sel) (min_volatility sel)) (Fin 2))"
  shows "volatility_score sel (fdiv (fadd (min_volatility sel) (max_volatility sel)) (Fin 2))
           = Fin 1"
proof -
  let ?mid = "fdiv (fadd (min_volatility sel) (max_volatility sel)) (Fin 2)"
  let ?half = "fdiv (fsub (max_volatility sel) (min_volatility sel)) (Fin 2)"
  from assms(1) obtain m where m: "?mid = Fin m" by (cases ?mid) auto
  have zero: "fdiv (Fin 0) ?half = Fin 0"
    using assms(4) by (cases ?half) (auto simp: signed_inf_def)
  have "\<not> flt ?mid (min_volatility sel)" "\<not> fgt ?mid (max_volatility sel)"
    using assms(2,3) by (auto simp: fgt_def dest: fle_not_flt)
  then have "volatility_score sel ?mid = fsub (Fin 1) (fdiv (fabs (fsub ?mid ?mid)) ?half)"
    by (rule volatility_score_inside)
  also have "\<dots> = Fin 1"
    unfolding m using zero by simp
  finally show ?thesis .
qed

lemma returns_of_positive_prices:
  assumes "positive_prices prices"
  shows "length (dropna (pct_change prices)) = length prices - 1"
proof (cases prices)
  case Nil
  then show ?thesis by (simp add: dropna_def)
next
  case (Cons p ps)
  let ?f = "\<lambda>(prev, cur). fsub (fdiv cur prev) (Fin 1)"
  have "\<not> isnan (?f x)" if "x \<in> set (zip (p # ps) ps)" for x
  proof -
    obtain prev cur where x: "x = (prev, cur)" by (cases x)
    with that have "prev \<in> set prices" "cur \<in> set prices"
      using Cons by (auto dest: set_zip_leftD set_zip_rightD)
    with assms obtain a b where "prev = Fin a" "0 < a" "cur = Fin b"
      by (cases prev; cases cur) (auto simp: positive_prices_def list_all_iff)
    then show ?thesis by (simp add: x)
  qed
  then have "filter (\<lambda>x. \<not> isnan x) (map ?f (zip (p # ps) ps)) = map ?f (zip (p # ps) ps)"
    by (auto simp: filter_id_conv)
  then show ?thesis
    using Cons by (simp add: dropna_def del: zip_Cons_Cons)
qed

text \<open>
  Claim C6, as amended.  For every price series the predictability score is
  0 when the series has fewer than \<^verbatim>\<open>min_data_points\<close> points or its
  volatility is NaN; otherwise it is
  \<open>0.6 \<sqdot> volatility_score + 0.4 \<sqdot> consistency_score\<close>.  The volatility
  score is 0 outside \<open>[min_volatility, max_volatility]\<close> and
  \<open>1 - |v - mid| / half\<close> inside, with \<open>mid\<close> and \<open>half\<close> the
  midpoint and the half width of the range as the code computes them: 1.0 at
  that midpoint, falling linearly with the distance from it (to 0 at either
  edge up to the rounding of the operations).  The consistency score is the
  fraction of consecutive return pairs that are both positive or both
  negative.  Fewer than 2 returns can exist after the length test (a series
  of 2 points with \<^verbatim>\<open>min_data_points\<close> at most 2); the volatility is
  then NaN and the score is 0, never built from a consistency of 0.5.  On
  positive finite prices with \<^verbatim>\<open>min_data_points\<close> at least 3, a series
  that passes the length test has at least 2 returns.
\<close>

theorem predictability_score_amended:
  "calculate_predictability_score sel prices =
     (if int (length prices) < min_data_points sel \<or> isnan (calculate_volatility prices)
      then Fin 0
      else fadd (fmul (Fin 0.6) (volatility_score sel (calculate_volatility prices)))
                (fmul (Fin 0.4) (spec_consistency (dropna (pct_change prices)))))
   \<and> (flt v (min_volatility sel) \<or> fgt v (max_volatility sel)
      \<longrightarrow> volatility_score sel v = Fin 0)
   \<and> (\<not> flt v (min_volatility sel) \<and> \<not> fgt v (max_volatility sel)
      \<longrightarrow> volatility_score sel v =
            fsub (Fin 1)
              (fdiv (fabs (fsub v (fdiv (fadd (min_volatility sel) (max_volatility sel)) (Fin 2))))
                    (fdiv (fsub (max_volatility sel) (min_volatility sel)) (Fin 2))))
   \<and> (is_finite (fdiv (fadd (min_volatility sel) (max_volatility sel)) (Fin 2))
        \<and> fle (min_volatility sel) (fdiv (fadd (min_volatility sel) (max_volatility sel)) (Fin 2))
        \<and> fle (fdiv (fadd (min_volatility sel) (max_volatility sel)) (Fin 2)) (max_volatility sel)
        \<and> flt (Fin 0) (fdiv (fsub (max_volatility sel) (min_volatility sel)) (Fin 2))
      \<longrightarrow> volatility_score sel (fdiv (fadd (min_volatility sel) (max_volatility sel)) (Fin 2))
            = Fin 1)
   \<and> (length (dropna (pct_change prices)) < 2
      \<longrightarrow> isnan (calculate_volatility prices)
        \<and> calculate_predictability_score sel prices = Fin 0)
   \<and> (positive_prices prices \<and> 3 \<le> min_data_points sel
        \<and> min_data_points sel \<le> int (length prices)
      \<longrightarrow> 2 \<le> length (dropna (pct_change prices)))"
proof (intro conjI impI)
  show "calculate_predictability_score sel prices =
     (if int (length prices) < min_data_points sel \<or> isnan (calculate_volatility prices)
      then Fin 0
      else fadd (fmul (Fin 0.6) (volatility_score sel (calculate_volatility prices)))
                (fmul (Fin 0.4) (spec_consistency (dropna (pct_change prices)))))"
    by (rule score_unfold)
next
  assume "flt v (min_volatility sel) \<or> fgt v (max_volatility sel)"
  then show "volatility_score sel v = Fin 0" by (rule volatility_score_outside)
next
  assume "\<not> flt v (min_volatility sel) \<and> \<not> fgt v (max_volatility sel)"
  then show "volatility_score sel v =
            fsub (Fin 1)
              (fdiv (fabs (fsub v (fdiv (fadd (min_volatility sel) (max_volatility sel)) (Fin 2))))
                    (fdiv (fsub (max_volatility sel) (min_volatility sel)) (Fin 2)))"
    by (intro volatility_score_inside) auto
next
  assume "is_finite (fdiv (fadd (min_volatility sel) (max_volatility sel)) (Fin 2))
        \<and> fle (min_volatility sel) (fdiv (fadd (min_volatility sel) (max_volatility sel)) (Fin 2))
        \<and> fle (fdiv (fadd (min_volatility sel) (max_volatility sel)) (Fin 2)) (max_volatility sel)
        \<and> flt (Fin 0) (fdiv (fsub (max_volatility sel) (min_volatility sel)) (Fin 2))"
  then show "volatility_score sel (fdiv (fadd (min_volatility sel) (max_volatility sel)) (Fin 2))
            = Fin 1"
    by (intro volatility_score_midpoint) auto
next
  assume a: "length (dropna (pct_change prices)) < 2"
  then show "isnan (calculate_volatility prices)"
    using volatility_needs_two_returns [of prices] by auto
  from a show "calculate_predictability_score sel prices = Fin 0"
    by (rule score_few_returns)
next
  assume "positive_prices prices \<and> 3 \<le> min_data_points sel
        \<and> min_data_points sel \<le> int (length prices)"
  then have "length (dropna (pct_change prices)) = length prices - 1" "3 \<le> length prices"
    by (auto simp: returns_of_positive_prices)
  then show "2 \<le> length (dropna (pct_change prices))"
    by linarith
qed

theorem predictability_score_amended_witness:
  "volatility_score StockSelector (Fin 0.255) = Fin 1
   \<and> volatility_score StockSelector (Fin 0.6) = Fin 0
   \<and> calculate_predictability_score StockSelector [Fin 100, Fin 101] = Fin 0
   \<and> positive_prices [Fin 100, Fin 101, Fin 99]
   \<and> 2 \<le> length (dropna (pct_change [Fin 100, Fin 101, Fin 99]))"
proof -
  let ?mid = "fdiv (fadd (min_volatility StockSelector) (max_volatility StockSelector)) (Fin 2)"
  have mid: "?mid = Fin 0.255" by (simp add: StockSelector_def)
  have h1: "is_finite ?mid \<and> fle (min_volatility StockSelector) ?mid
      \<and> fle ?mid (max_volatility StockSelector)
      \<and> flt (Fin 0) (fdiv (fsub (max_volatility StockSelector) (min_volatility StockSelector))
                          (Fin 2))"
    by (simp add: StockSelector_def)
  have h1': "flt (Fin 0.6) (min_volatility StockSelector)
      \<or> fgt (Fin 0.6) (max_volatility StockSelector)"
    by (simp add: StockSelector_def)
  have h2: "length (dropna (pct_change [Fin 100, Fin 101])) < 2"
    by (simp add: dropna_def)
  have h3: "positive_prices [Fin 100, Fin 101, Fin 99]
      \<and> 3 \<le> min_data_points (StockSelector\<lparr>min_data_points := 3\<rparr>)
      \<and> min_data_points (StockSelector\<lparr>min_data_points := 3\<rparr>)
          \<le> int (length [Fin 100, Fin 101, Fin 99])"
    by (simp add: positive_prices_def)
  note t1 = predictability_score_amended
    [where sel = StockSelector and v = "Fin 0.6" and prices = "[Fin 100, Fin 101]"]
  note t2 = predictability_score_amended
    [where sel = "StockSelector\<lparr>min_data_points := 3\<rparr>"
       and prices = "[Fin 100, Fin 101, Fin 99]"]
  from t1 h1 have "volatility_score StockSelector ?mid = Fin 1"
    by blast
  then have "volatility_score StockSelector (Fin 0.255) = Fin 1"
    unfolding mid .
  moreover from t1 h1' have "volatility_score StockSelector (Fin 0.6) = Fin 0"
    by blast
  moreover from t1 h2 have "calculate_predictability_score StockSelector [Fin 100, Fin 101] = Fin 0"
    by blast
  moreover from t2 h3 have "2 \<le> length (dropna (pct_change [Fin 100, Fin 101, Fin 99]))"
    by blast
  ultimately show ?thesis using h3 by simp
qed

text \<open>
  Claim C6 as stated says that fewer than 2 returns cannot exist once the
  length test passes, for every admissible \<^verbatim>\<open>min_data_points\<close>.  With
  \<^verbatim>\<open>min_data_points = 2\<close> a series of 2 points passes the test and has a
  single return; its score is 0.
\<close>

theorem predictability_score_counterexample:
  "\<not> int (length [Fin 1, Fin 2])
        < min_data_points \<lparr>min_volatility = Fin 0.01, max_volatility = Fin 0.5, min_data_points = 2\<rparr>
   \<and> length (dropna (pct_change [Fin 1, Fin 2])) = 1
   \<and> calculate_predictability_score
        \<lparr>min_volatility = Fin 0.01, max_volatility = Fin 0.5, min_data_points = 2\<rparr>
        [Fin 1, Fin 2] = Fin 0"
  by (simp add: calculate_predictability_score_def calculate_volatility_def series_std_def
        dropna_def Let_def)

end
